theory Spec2Isabelle
  imports Complex_Main "HOL-Library.Log_Nat" "HOL-Library.AList"
begin

section \<open>JavaScript numbers and numeric strings\<close>

text \<open>
  The server computes every amount with JavaScript \<^verbatim>\<open>number\<close>s, that is IEEE-754 binary64
  values, and stores amounts as decimal strings. A finite double is modelled by the rational
  it denotes; every arithmetic operation is the exact operation followed by rounding to the
  nearest double, ties to even (\<open>fl\<close>). The exponent range is taken unbounded: \<open>fl\<close> is
  binary64 rounding on results that are zero or between \<open>2\<^sup>-\<^sup>1\<^sup>0\<^sup>2\<^sup>2\<close> and \<open>2\<^sup>1\<^sup>0\<^sup>2\<^sup>4\<close> in
  magnitude. Beyond that range binary64 overflows to an infinity (and then to NaN) or loses
  bits to a subnormal; infinities, NaN and the sign of zero are outside the model, and the
  statements about amounts in general carry the range \<open>inRange\<close> below as a hypothesis.
\<close>

definition pow2 :: "int \<Rightarrow> rat" where
  "pow2 e = (if 0 \<le> e then of_int (2 ^ nat e) else 1 / of_int (2 ^ nat (- e)))"

text \<open>\<open>ilog2 x\<close> is the binary exponent \<open>\<lfloor>log\<^sub>2 x\<rfloor>\<close> of a positive rational.\<close>

definition ilog2 :: "rat \<Rightarrow> int" where
  "ilog2 x = (let (p, q) = quotient_of x; d = bitlen p - bitlen q
              in if pow2 d \<le> x then d else d - 1)"

definition roundTiesToEven :: "rat \<Rightarrow> int" where
  "roundTiesToEven x =
     (let f = \<lfloor>x\<rfloor>; d = x - of_int f
      in if d < 1 / 2 then f else if 1 / 2 < d then f + 1 else if even f then f else f + 1)"

text \<open>Rounding to 53 significant bits: \<open>u\<close> is the unit in the last place of \<open>x\<close>.\<close>

definition fl :: "rat \<Rightarrow> rat" where
  "fl x = (if x = 0 then 0
           else let u = pow2 (ilog2 \<bar>x\<bar> - 52) in of_int (roundTiesToEven (x / u)) * u)"

definition jsAdd :: "rat \<Rightarrow> rat \<Rightarrow> rat" where
  "jsAdd a b = fl (a + b)"

definition jsSub :: "rat \<Rightarrow> rat \<Rightarrow> rat" where
  "jsSub a b = fl (a - b)"

definition jsMul :: "rat \<Rightarrow> rat \<Rightarrow> rat" where
  "jsMul a b = fl (a * b)"

definition jsDiv :: "rat \<Rightarrow> rat \<Rightarrow> rat" where
  "jsDiv a b = fl (a / b)"

text \<open>
  A numeric string \<^verbatim>\<open>[-]ddd.fff\<close> is kept as its sign, the (non-negative) integer its
  digits spell with the point removed, and the count of fraction digits: \<^verbatim>\<open>"0"\<close> is \<open>Decimal False 0 0\<close> and
  \<^verbatim>\<open>"0.000000000"\<close> is \<open>Decimal False 0 9\<close>. The amounts the routes accept match
  \<^verbatim>\<open>^\d+(\.\d+)?$\<close> and the amounts the server writes come from \<^verbatim>\<open>toFixed(9)\<close>, so every
  stored amount has this shape, \<^verbatim>\<open>parseFloat\<close> never yields NaN on it, and the fallbacks
  \<^verbatim>\<open>x || '0'\<close> and \<^verbatim>\<open>parseFloat(x) || 0\<close> of the source return their left operand's value.
\<close>

datatype decimal = Decimal (neg: bool) (units: int) (scale: nat)

definition decValue :: "decimal \<Rightarrow> rat" where
  "decValue d = (if neg d then - 1 else 1) * of_int (units d) / 10 ^ scale d"

definition parseFloat :: "decimal \<Rightarrow> rat" where
  "parseFloat d = fl (decValue d)"

text \<open>
  \<^verbatim>\<open>Number.prototype.toFixed(f)\<close>: the integer \<open>n\<close> with \<open>n / 10\<^sup>f\<close> nearest to \<open>\<bar>x\<bar>\<close>, the
  larger one on a tie, with the sign of \<open>x\<close> in front (below \<open>10\<^sup>2\<^sup>1\<close>, where JavaScript
  keeps positional notation).
\<close>

definition toFixed :: "nat \<Rightarrow> rat \<Rightarrow> decimal" where
  "toFixed f x = Decimal (x < 0) \<lfloor>\<bar>x\<bar> * 10 ^ f + 1 / 2\<rfloor> f"

text \<open>
  Firestore orders strings by their bytes, so \<^verbatim>\<open>where('stakedAmount', '>', '0')\<close> keeps every
  non-negative amount string except the one-character string \<^verbatim>\<open>"0"\<close>.
\<close>

definition greaterThanString0 :: "decimal \<Rightarrow> bool" where
  "greaterThanString0 d \<longleftrightarrow> \<not> neg d \<and> \<not> (units d = 0 \<and> scale d = 0)"

text \<open>
  The range of the amounts in the general statements: zero, or at least \<open>2\<^sup>-\<^sup>5\<^sup>0\<^sup>0\<close> and at
  most \<open>10\<^sup>2\<^sup>0\<close> in magnitude (the supply of TON is about \<open>5 \<cdot> 10\<^sup>9\<close>). A normal double
  is one that binary64 holds with all 53 bits. From a stake in range, the stake as a double
  and its gross reward, commission and net reward are zero or normal (lemma
  \<open>reward_figures_normal\<close>).
\<close>

definition inRange :: "rat \<Rightarrow> bool" where
  "inRange x \<longleftrightarrow> x = 0 \<or> (1 / 2 ^ 500 \<le> \<bar>x\<bar> \<and> \<bar>x\<bar> \<le> 10 ^ 20)"

definition normalDouble :: "rat \<Rightarrow> bool" where
  "normalDouble x \<longleftrightarrow> pow2 (- 1022) \<le> \<bar>x\<bar> \<and> \<bar>x\<bar> < pow2 1024"

section \<open>The ledger of \<^verbatim>\<open>storage\<close> (firebaseStorage.ts) and the referral route (routes.ts)\<close>

text \<open>
  \<^verbatim>\<open>User\<close> is the shared schema type; the fields are those the server code reads or writes.
  The \<^verbatim>\<open>users\<close> collection is the list of its documents (document id and data) in the
  order a query returns them.
\<close>

record User =
  telegramId :: string
  username :: string
  referralCode :: string
  appBalance :: decimal
  totalStaked :: decimal
  totalEarned :: decimal
  referredBy :: "string option"

record Referral =
  referrer :: string
  referred :: string
  depositAmount :: decimal
  bonus :: decimal

datatype transactionType = deposit | withdraw | withdrawal | reward | referral | referral_bonus
  | premium_payment

datatype transactionStatus = pending | completed | failed

text \<open>
  A transaction's description is one of the message templates of the source together with
  the values interpolated into it. Generated document ids and the bookkeeping time stamps
  (\<^verbatim>\<open>createdAt\<close>, \<^verbatim>\<open>updatedAt\<close>, \<^verbatim>\<open>timestamp\<close>) are left out of the records: no code path
  reads them back.
\<close>

datatype transactionText =
    DailyStakingReward bool
  | ReferralBonusFromUser string decimal
  | PremiumSubscriptionActivated
  | PremiumSubscriptionExpired
  | DailyReferralBonusFrom string
  | DailyPoolReward
  | AdminCommissionFromDailyRewards
  | RewardDistributionFailed

record Transaction =
  telegramId :: string
  type :: transactionType
  amount :: decimal
  description :: transactionText
  status :: transactionStatus

record Analytics =
  telegramId :: string
  netRewards :: decimal
  grossRewards :: decimal
  netApy :: decimal
  totalPoolBalance :: decimal

text \<open>The document \<^verbatim>\<open>pool/config\<close> of this ledger.\<close>

record PoolConfig =
  totalStaked :: decimal
  totalRewards :: decimal
  lastPayout :: int
  lastGrossRewards :: decimal
  lastAdminCommission :: decimal
  commission :: rat
  referralBonus :: rat

record storage =
  userDocs :: "(string \<times> User) list"
  referralDocs :: "Referral list"
  transactionDocs :: "Transaction list"
  analyticsDocs :: "Analytics list"
  poolConfig :: "PoolConfig option"

text \<open>
  Calls to the document store can be rejected. \<open>rejects\<close> names the calls the store rejects
  during the operation under study; a rejected call throws and writes nothing.
  \<open>timestampNow\<close> is the clock.
\<close>

datatype storageCall = GetDocs | UpdateDoc string | AddDoc string | SetDoc string

datatype storageError = Rejected storageCall

record storageEnv =
  rejects :: "storageCall \<Rightarrow> bool"
  timestampNow :: int

definition getUserByTelegramId :: "storageEnv \<Rightarrow> string \<Rightarrow> storage \<Rightarrow> (string \<times> User) option" where
  "getUserByTelegramId env tid st =
     (if rejects env GetDocs then None
      else find (\<lambda>(i, u). User.telegramId u = tid) (userDocs st))"

definition getUserByReferralCode :: "storageEnv \<Rightarrow> string \<Rightarrow> storage \<Rightarrow> (string \<times> User) option" where
  "getUserByReferralCode env code st =
     (if rejects env GetDocs then None
      else find (\<lambda>(i, u). User.referralCode u = code) (userDocs st))"

text \<open>
  \<^verbatim>\<open>storage.updateUser\<close> looks the user up by Telegram id, updates that document and returns
  the merged user; a missing user and every error give \<^verbatim>\<open>undefined\<close> (\<open>None\<close>).
\<close>

definition updateUser :: "storageEnv \<Rightarrow> string \<Rightarrow> (User \<Rightarrow> User) \<Rightarrow> storage \<Rightarrow> User option \<times> storage" where
  "updateUser env tid updates st =
     (case getUserByTelegramId env tid st of
        None \<Rightarrow> (None, st)
      | Some (i, user) \<Rightarrow>
          if rejects env (UpdateDoc i) then (None, st)
          else (Some (updates user), st\<lparr>userDocs := AList.map_entry i updates (userDocs st)\<rparr>))"

datatype response = Json200 | Status400 string | Status404 string | Status500 string

text \<open>\<^verbatim>\<open>POST /api/referral/register\<close> of routes.ts.\<close>

definition referralRegister :: "storageEnv \<Rightarrow> string \<Rightarrow> string \<Rightarrow> storage \<Rightarrow> response \<times> storage" where
  "referralRegister env tid code st =
     (case (getUserByTelegramId env tid st, getUserByReferralCode env code st) of
        (Some (i, user), Some (j, referrerUser)) \<Rightarrow>
          if User.referredBy user \<noteq> None \<and> User.referredBy user \<noteq> Some []
          then (Status400 ''User already has a referrer'', st)
          else if User.telegramId referrerUser = tid
          then (Status400 ''Cannot refer yourself'', st)
          else (Json200,
                snd (updateUser env tid (\<lambda>u. u\<lparr>User.referredBy := Some (User.telegramId referrerUser)\<rparr>) st))
      | _ \<Rightarrow> (Status404 ''User or referrer not found'', st))"

section \<open>The Firestore ledger of firestoreManager.ts\<close>

text \<open>
  The field \<^verbatim>\<open>premiumExpiresAt\<close> is read as \<^verbatim>\<open>any\<close>. \<^verbatim>\<open>updateUserPremiumStatus\<close> writes a
  \<^verbatim>\<open>Date\<close> (or \<^verbatim>\<open>null\<close>) to it, and Firestore returns a stored \<^verbatim>\<open>Date\<close> as a \<^verbatim>\<open>Timestamp\<close>
  object. A document may also hold a number (milliseconds) or a non-empty string there,
  kept with the instant \<^verbatim>\<open>Date.parse\<close> reads from it, if any. An absent field, \<^verbatim>\<open>null\<close> and
  the empty string are \<open>None\<close>.

  \<open>truthy\<close> is JavaScript's truth value of the field and \<open>newDate\<close> the time value of
  \<^verbatim>\<open>new Date(field)\<close>, \<open>None\<close> for an invalid date: a \<^verbatim>\<open>Timestamp\<close> object is not a
  date, a number or a date string, so \<^verbatim>\<open>new Date\<close> of it is invalid; a number is a valid
  time value up to \<open>8.64 \<cdot> 10\<^sup>1\<^sup>5\<close> in magnitude.
\<close>

datatype dateField = Timestamp int | Millis int | DateString "int option"

fun truthy :: "dateField \<Rightarrow> bool" where
  "truthy (Timestamp t) = True"
| "truthy (Millis n) = (n \<noteq> 0)"
| "truthy (DateString parsed) = True"

fun newDate :: "dateField \<Rightarrow> int option" where
  "newDate (Timestamp t) = None"
| "newDate (Millis n) = (if \<bar>n\<bar> \<le> 8640000000000000 then Some n else None)"
| "newDate (DateString parsed) = parsed"

record UserData =
  walletAddress :: "string option"
  stakedAmount :: decimal
  rewardsBalance :: decimal
  referralCode :: string
  referredBy :: "string option"
  totalEarnings :: decimal
  isPremium :: bool
  premiumExpiresAt :: "dateField option"
  premiumRate :: "decimal option"

text \<open>
  \<^verbatim>\<open>logTransaction\<close> stores the caller's object; \<^verbatim>\<open>updateUserPremiumStatus\<close> passes the user
  under the key \<^verbatim>\<open>telegramId\<close> and a numeric amount, which are kept here in \<open>userId\<close> and
  \<open>amount\<close>.
\<close>

record TransactionData =
  userId :: string
  type :: transactionType
  amount :: decimal
  status :: transactionStatus
  description :: transactionText

text \<open>
  \<open>totalStaked\<close> of the pool document is written with \<^verbatim>\<open>Number.prototype.toString\<close>; the
  field holds the double that string reads back as.
\<close>

record PoolData =
  totalStaked :: rat
  lastRewardDistribution :: "int option"
  adminCommission :: decimal

record store =
  users :: "(string \<times> UserData) list"
  transactions :: "TransactionData list"
  pool :: PoolData

datatype firestoreCall =
    GetUser string
  | SetUser string
  | UpdateUser string
  | UpdatePremiumStatus string
  | QueryUsers
  | AddTransaction string
  | UpdatePool

datatype error =
    FirestoreError firestoreCall
  | TypeError string
  | InsufficientBalance rat rat

text \<open>
  The environment of one operation: the calls the store rejects, the clock (milliseconds),
  and the referral code \<^verbatim>\<open>generateReferralCode\<close> draws for a new user. A run reads the clock
  once for every account and once more at its end; the model takes one reading, \<open>now\<close>, for
  the whole run.
\<close>

record env =
  fails :: "firestoreCall \<Rightarrow> bool"
  now :: int
  generateReferralCode :: "string \<Rightarrow> string"

text \<open>\<^verbatim>\<open>getUserData\<close> creates the user document when it does not exist.\<close>

definition getUserData :: "env \<Rightarrow> string \<Rightarrow> store \<Rightarrow> (error + UserData) \<times> store" where
  "getUserData env uid s =
     (if fails env (GetUser uid) then (Inl (FirestoreError (GetUser uid)), s)
      else case map_of (users s) uid of
        Some userDoc \<Rightarrow> (Inr userDoc, s)
      | None \<Rightarrow>
          let userData = \<lparr>walletAddress = None, stakedAmount = Decimal False 0 0,
                rewardsBalance = Decimal False 0 0,
                referralCode = generateReferralCode env uid, referredBy = None,
                totalEarnings = Decimal False 0 0, isPremium = False,
                premiumExpiresAt = None, premiumRate = None\<rparr>
          in if fails env (SetUser uid) then (Inl (FirestoreError (SetUser uid)), s)
             else (Inr userData, s\<lparr>users := users s @ [(uid, userData)]\<rparr>))"

text \<open>
  \<^verbatim>\<open>updateUserBalance\<close> merges the given fields into the user's document. Firestore's
  \<^verbatim>\<open>update\<close> throws when the document does not exist.
\<close>

definition updateUserBalance :: "env \<Rightarrow> string \<Rightarrow> (UserData \<Rightarrow> UserData) \<Rightarrow> store \<Rightarrow> (error + unit) \<times> store" where
  "updateUserBalance env uid updates s =
     (if fails env (UpdateUser uid) \<or> map_of (users s) uid = None
      then (Inl (FirestoreError (UpdateUser uid)), s)
      else (Inr (), s\<lparr>users := AList.map_entry uid updates (users s)\<rparr>))"

definition logTransaction :: "env \<Rightarrow> TransactionData \<Rightarrow> store \<Rightarrow> (error + unit) \<times> store" where
  "logTransaction env transaction s =
     (if fails env (AddTransaction (userId transaction))
      then (Inl (FirestoreError (AddTransaction (userId transaction))), s)
      else (Inr (), s\<lparr>transactions := transactions s @ [transaction]\<rparr>))"

text \<open>
  \<^verbatim>\<open>processReferral\<close>: the referrer is the first user whose referral code matches; every
  error is caught and turned into \<^verbatim>\<open>false\<close>.
\<close>

definition processReferral :: "env \<Rightarrow> string \<Rightarrow> string \<Rightarrow> store \<Rightarrow> bool \<times> store" where
  "processReferral env uid code s =
     (if fails env QueryUsers then (False, s)
      else case find (\<lambda>(i, u). referralCode u = code) (users s) of
        None \<Rightarrow> (False, s)
      | Some (referrerId, referrerDoc) \<Rightarrow>
          if referrerId = uid then (False, s)
          else case updateUserBalance env uid (\<lambda>u. u\<lparr>referredBy := Some referrerId\<rparr>) s of
            (Inl e, s') \<Rightarrow> (False, s')
          | (Inr _, s') \<Rightarrow> (True, s'))"

text \<open>
  \<^verbatim>\<open>updateUserPremiumStatus\<close> updates the premium fields with a call of its own and then
  logs a \<^verbatim>\<open>premium_payment\<close> transaction (amount \<^verbatim>\<open>2.0\<close> or \<^verbatim>\<open>0\<close>, a number); it rethrows.
  Its argument \<^verbatim>\<open>expiresAt: Date | null\<close> is the time value of the date; the document then
  holds a \<^verbatim>\<open>Timestamp\<close>.
\<close>

definition updateUserPremiumStatus :: "env \<Rightarrow> string \<Rightarrow> bool \<Rightarrow> int option \<Rightarrow> decimal \<Rightarrow> store \<Rightarrow> (error + unit) \<times> store" where
  "updateUserPremiumStatus env tid premium expiresAt rate s =
     (if fails env (UpdatePremiumStatus tid) \<or> map_of (users s) tid = None
      then (Inl (FirestoreError (UpdatePremiumStatus tid)), s)
      else
        let s1 = s\<lparr>users := AList.map_entry tid
                   (\<lambda>u. u\<lparr>isPremium := premium,
                            premiumExpiresAt := map_option Timestamp expiresAt,
                            premiumRate := Some rate\<rparr>) (users s)\<rparr>
        in if fails env (AddTransaction tid)
           then (Inl (FirestoreError (AddTransaction tid)), s1)
           else (Inr (), s1\<lparr>transactions := transactions s1 @
                   [\<lparr>userId = tid, type = premium_payment,
                     amount = (if premium then Decimal False 2 0 else Decimal False 0 0),
                     status = completed,
                     description = (if premium then PremiumSubscriptionActivated
                                    else PremiumSubscriptionExpired)\<rparr>]\<rparr>))"

subsection \<open>Reward distribution (\<^verbatim>\<open>distributeRewards\<close>)\<close>

text \<open>
  The premium test of \<^verbatim>\<open>distributeUserRewardWithPremium\<close>:
  \<^verbatim>\<open>user.isPremium && (!user.premiumExpiresAt || new Date(user.premiumExpiresAt) > now)\<close>,
  and its auto-expiry test
  \<^verbatim>\<open>user.isPremium && user.premiumExpiresAt && new Date(user.premiumExpiresAt) < now\<close>.
  A comparison with an invalid date is false.
\<close>

definition laterThanNow :: "env \<Rightarrow> dateField \<Rightarrow> bool" where
  "laterThanNow env v = (case newDate v of None \<Rightarrow> False | Some t \<Rightarrow> now env < t)"

definition earlierThanNow :: "env \<Rightarrow> dateField \<Rightarrow> bool" where
  "earlierThanNow env v = (case newDate v of None \<Rightarrow> False | Some t \<Rightarrow> t < now env)"

definition premiumActive :: "env \<Rightarrow> UserData \<Rightarrow> bool" where
  "premiumActive env user \<longleftrightarrow>
     isPremium user
     \<and> (case premiumExpiresAt user of
            None \<Rightarrow> True
          | Some v \<Rightarrow> \<not> truthy v \<or> laterThanNow env v)"

definition premiumExpired :: "env \<Rightarrow> UserData \<Rightarrow> bool" where
  "premiumExpired env user \<longleftrightarrow>
     isPremium user
     \<and> (case premiumExpiresAt user of
            None \<Rightarrow> False
          | Some v \<Rightarrow> truthy v \<and> earlierThanNow env v)"

definition apyRate :: "bool \<Rightarrow> rat" where
  "apyRate premium = (if premium then fl (105 / 1000) else fl (87 / 1000))"

definition dailyRate :: "bool \<Rightarrow> rat" where
  "dailyRate premium = jsDiv (apyRate premium) 365"

text \<open>\<^verbatim>\<open>userReward = userStake * dailyRate\<close>, the gross reward of the account.\<close>

definition userReward :: "env \<Rightarrow> UserData \<Rightarrow> rat" where
  "userReward env user = jsMul (parseFloat (stakedAmount user)) (dailyRate (premiumActive env user))"

text \<open>\<^verbatim>\<open>adminCommission = userReward * 0.12\<close> and \<^verbatim>\<open>netUserReward = userReward - adminCommission\<close>.\<close>

definition userCommission :: "rat \<Rightarrow> rat" where
  "userCommission gross = jsMul gross (fl (12 / 100))"

definition netUserReward :: "rat \<Rightarrow> rat" where
  "netUserReward gross = jsSub gross (userCommission gross)"

text \<open>
  \<^verbatim>\<open>processReferralBonus\<close> credits 10% of the referee's reward to the referrer and logs one
  transaction of type \<^verbatim>\<open>referral\<close>; it catches and logs every error.
\<close>

definition processReferralBonus :: "env \<Rightarrow> string \<Rightarrow> rat \<Rightarrow> string \<Rightarrow> store \<Rightarrow> store" where
  "processReferralBonus env referrerId refereeReward refereeId s =
     (let referralBonus = jsMul refereeReward (fl (10 / 100))
      in case getUserData env referrerId s of
           (Inl e, s0) \<Rightarrow> s0
         | (Inr referrerData, s0) \<Rightarrow>
             let newRewardsBalance = jsAdd (parseFloat (rewardsBalance referrerData)) referralBonus;
                 newTotalEarnings = jsAdd (parseFloat (totalEarnings referrerData)) referralBonus
             in case updateUserBalance env referrerId
                       (\<lambda>u. u\<lparr>rewardsBalance := toFixed 9 newRewardsBalance,
                                totalEarnings := toFixed 9 newTotalEarnings\<rparr>) s0 of
                  (Inl e, s1) \<Rightarrow> s1
                | (Inr _, s1) \<Rightarrow>
                    snd (logTransaction env
                           \<lparr>userId = referrerId, type = referral,
                            amount = toFixed 9 referralBonus, status = completed,
                            description = ReferralBonusFromUser refereeId (toFixed 9 refereeReward)\<rparr>
                           s1))"

text \<open>
  \<^verbatim>\<open>distributeUserRewardWithPremium(user, totalStaked)\<close> works on the snapshot \<open>user\<close> that
  the query returned at the start of the run. Its whole body sits in one
  \<^verbatim>\<open>try\<close>; the \<^verbatim>\<open>catch\<close> writes to the console and returns, so the function yields only
  the store as it is when the body stops.
\<close>

definition distributeUserRewardWithPremium :: "env \<Rightarrow> string \<times> UserData \<Rightarrow> rat \<Rightarrow> store \<Rightarrow> store" where
  "distributeUserRewardWithPremium env snapshot totalStakedRun s =
     (let uid = fst snapshot; user = snd snapshot;
          premium = premiumActive env user;
          expiry = (if premiumExpired env user
                    then updateUserPremiumStatus env uid False None (Decimal False 87 1) s
                    else (Inr (), s))
      in case expiry of
           (Inl e, s0) \<Rightarrow> s0
         | (Inr _, s0) \<Rightarrow>
             let gross = userReward env user;
                 net = netUserReward gross;
                 newRewardsBalance = jsAdd (parseFloat (rewardsBalance user)) net;
                 newTotalEarnings = jsAdd (parseFloat (totalEarnings user)) net
             in case updateUserBalance env uid
                       (\<lambda>u. u\<lparr>rewardsBalance := toFixed 9 newRewardsBalance,
                                totalEarnings := toFixed 9 newTotalEarnings\<rparr>) s0 of
                  (Inl e, s1) \<Rightarrow> s1
                | (Inr _, s1) \<Rightarrow>
                    (case logTransaction env
                            \<lparr>userId = uid, type = reward, amount = toFixed 9 net,
                             status = completed, description = DailyStakingReward premium\<rparr> s1 of
                       (Inl e, s2) \<Rightarrow> s2
                     | (Inr _, s2) \<Rightarrow>
                         (case referredBy user of
                            None \<Rightarrow> s2
                          | Some referrerId \<Rightarrow>
                              if referrerId = [] then s2
                              else processReferralBonus env referrerId net uid s2)))"

text \<open>
  \<^verbatim>\<open>getAllUsersWithStakes\<close> is the query \<^verbatim>\<open>where('stakedAmount', '>', '0')\<close>. Firestore returns
  its result ordered by the field of the inequality, here the stake as a string; the list
  \<open>users\<close> holds the documents in the order they have at the start of a run.
\<close>

definition getAllUsersWithStakes :: "store \<Rightarrow> (string \<times> UserData) list" where
  "getAllUsersWithStakes s = filter (\<lambda>(i, u). greaterThanString0 (stakedAmount u)) (users s)"

text \<open>
  \<^verbatim>\<open>distributeRewards\<close>: the entry point the scheduler and the manual trigger call. It
  rethrows what its own calls throw (the query and the pool update).
\<close>

definition totalStakedOf :: "(string \<times> UserData) list \<Rightarrow> rat" where
  "totalStakedOf snapshots =
     foldl (\<lambda>sum (i, u). jsAdd sum (parseFloat (stakedAmount u))) 0 snapshots"

definition distributeRewards :: "env \<Rightarrow> store \<Rightarrow> (error + unit) \<times> store" where
  "distributeRewards env s =
     (if fails env QueryUsers then (Inl (FirestoreError QueryUsers), s)
      else
        let snapshots = getAllUsersWithStakes s
        in if snapshots = [] then (Inr (), s)
           else
             let totalStakedRun = totalStakedOf snapshots
             in if totalStakedRun = 0 then (Inr (), s)
                else
                  let s1 = foldl (\<lambda>st snapshot.
                                    distributeUserRewardWithPremium env snapshot totalStakedRun st)
                                 s snapshots
                  in if fails env UpdatePool then (Inl (FirestoreError UpdatePool), s1)
                     else (Inr (), s1\<lparr>pool := (pool s1)\<lparr>PoolData.totalStaked := totalStakedRun,
                                  lastRewardDistribution := Some (now env)\<rparr>\<rparr>))"

section \<open>Custodial deposit and withdrawal (adminWallet.ts)\<close>

text \<open>
  Both operations import \<^verbatim>\<open>addTransaction\<close> from firestoreManager, which exports no such
  function (its logger is \<^verbatim>\<open>logTransaction\<close>): the call after the balance update throws a
  \<^verbatim>\<open>TypeError\<close>, which the \<^verbatim>\<open>catch\<close> rethrows. The balance update before it stays written.
\<close>

definition processDirectDeposit :: "env \<Rightarrow> string \<Rightarrow> decimal \<Rightarrow> string \<Rightarrow> store \<Rightarrow> (error + string) \<times> store" where
  "processDirectDeposit env uid deposited userWalletAddress s =
     (case updateUserBalance env uid (\<lambda>u. u\<lparr>stakedAmount := deposited\<rparr>) s of
        (Inl e, s1) \<Rightarrow> (Inl e, s1)
      | (Inr _, s1) \<Rightarrow> (Inl (TypeError ''addTransaction is not a function''), s1))"


section \<open>Example ledgers\<close>

definition env0 :: env where
  "env0 = \<lparr>fails = (\<lambda>c. False), now = 1000, generateReferralCode = (\<lambda>uid. ''CODE'' @ uid)\<rparr>"

definition newUser :: "string \<Rightarrow> decimal \<Rightarrow> UserData" where
  "newUser code stake =
     \<lparr>walletAddress = None, stakedAmount = stake, rewardsBalance = Decimal False 0 0,
      referralCode = code, referredBy = None, totalEarnings = Decimal False 0 0,
      isPremium = False, premiumExpiresAt = None, premiumRate = None\<rparr>"

definition pool0 :: PoolData where
  "pool0 = \<lparr>PoolData.totalStaked = 0, lastRewardDistribution = None,
            adminCommission = Decimal False 0 0\<rparr>"

definition senv0 :: storageEnv where
  "senv0 = \<lparr>rejects = (\<lambda>c. False), timestampNow = 1000\<rparr>"

definition member :: "string \<Rightarrow> string \<Rightarrow> User" where
  "member tid code =
     \<lparr>User.telegramId = tid, username = tid, User.referralCode = code,
      appBalance = Decimal False 0 0, User.totalStaked = Decimal False 0 0,
      totalEarned = Decimal False 0 0, User.referredBy = None\<rparr>"

text \<open>One user, \<^verbatim>\<open>alice\<close>, in each ledger.\<close>

definition ledgerAlice :: store where
  "ledgerAlice = \<lparr>users = [(''alice'', newUser ''ALICE1'' (Decimal False 0 0))],
                  transactions = [], pool = pool0\<rparr>"

definition storageAlice :: storage where
  "storageAlice = \<lparr>userDocs = [(''doc1'', member ''alice'' ''alice1'')],
                   referralDocs = [], transactionDocs = [], analyticsDocs = [],
                   poolConfig = None\<rparr>"

text \<open>\<^verbatim>\<open>alice\<close> with a stake of 5 TON.\<close>

definition ledgerStake5 :: store where
  "ledgerStake5 = \<lparr>users = [(''alice'', newUser ''ALICE1'' (Decimal False 5 0))],
                   transactions = [], pool = pool0\<rparr>"


section \<open>What a run writes for one account\<close>

text \<open>
  The reward transaction of an account, the fields its reward write sets, and the ledger
  after the premium expiry and after the reward write and its log entry; \<open>storeAccepts\<close>
  says that the store accepts the calls that write to an account. \<open>loggedSince old s\<close> are
  the transactions of \<open>s\<close> behind the first \<open>length old\<close> ones, \<open>extends\<close> says that the
  ledger's transactions are the \<open>old\<close> ones followed by \<^verbatim>\<open>completed\<close> ones only, and
  \<open>creditedTo\<close> that the ledger shows the account's credit and holds its reward transaction
  among those logged since \<open>old\<close>.
\<close>

definition rewardTransaction :: "env \<Rightarrow> string \<times> UserData \<Rightarrow> TransactionData" where
  "rewardTransaction env snapshot =
     \<lparr>userId = fst snapshot, type = reward,
      amount = toFixed 9 (netUserReward (userReward env (snd snapshot))),
      status = completed,
      description = DailyStakingReward (premiumActive env (snd snapshot))\<rparr>"

definition creditReward :: "env \<Rightarrow> UserData \<Rightarrow> UserData \<Rightarrow> UserData" where
  "creditReward env user = (\<lambda>doc.
     doc\<lparr>rewardsBalance :=
           toFixed 9 (jsAdd (parseFloat (rewardsBalance user)) (netUserReward (userReward env user))),
         totalEarnings :=
           toFixed 9 (jsAdd (parseFloat (totalEarnings user)) (netUserReward (userReward env user)))\<rparr>)"

definition storeAccepts :: "env \<Rightarrow> string \<Rightarrow> bool" where
  "storeAccepts env uid \<longleftrightarrow>
     \<not> fails env (UpdateUser uid) \<and> \<not> fails env (AddTransaction uid)
     \<and> \<not> fails env (UpdatePremiumStatus uid)"

definition expirePremium :: "string \<Rightarrow> store \<Rightarrow> store" where
  "expirePremium uid s =
     s\<lparr>users := AList.map_entry uid
          (\<lambda>u. u\<lparr>isPremium := False, premiumExpiresAt := None,
                   premiumRate := Some (Decimal False 87 1)\<rparr>) (users s),
       transactions := transactions s @
          [\<lparr>userId = uid, type = premium_payment, amount = Decimal False 0 0,
            status = completed, description = PremiumSubscriptionExpired\<rparr>]\<rparr>"

definition credited :: "env \<Rightarrow> string \<times> UserData \<Rightarrow> store \<Rightarrow> store" where
  "credited env snapshot s =
     s\<lparr>users := AList.map_entry (fst snapshot) (creditReward env (snd snapshot)) (users s),
       transactions := transactions s @ [rewardTransaction env snapshot]\<rparr>"

definition loggedSince :: "TransactionData list \<Rightarrow> store \<Rightarrow> TransactionData list" where
  "loggedSince old s = drop (length old) (transactions s)"

definition creditedTo :: "TransactionData list \<Rightarrow> env \<Rightarrow> string \<times> UserData \<Rightarrow> store \<Rightarrow> bool" where
  "creditedTo old env snapshot s \<longleftrightarrow>
     map_option rewardsBalance (map_of (users s) (fst snapshot))
       = Some (toFixed 9 (jsAdd (parseFloat (rewardsBalance (snd snapshot)))
                            (netUserReward (userReward env (snd snapshot)))))
     \<and> map_option totalEarnings (map_of (users s) (fst snapshot))
       = Some (toFixed 9 (jsAdd (parseFloat (totalEarnings (snd snapshot)))
                            (netUserReward (userReward env (snd snapshot)))))
     \<and> rewardTransaction env snapshot \<in> set (loggedSince old s)"

definition extends :: "TransactionData list \<Rightarrow> store \<Rightarrow> bool" where
  "extends old s \<longleftrightarrow>
     take (length old) (transactions s) = old
     \<and> list_all (\<lambda>t. status t = completed) (loggedSince old s)"

text \<open>The same with any property \<open>Q\<close> of the records logged since \<open>old\<close>.\<close>

definition appends :: "(TransactionData \<Rightarrow> bool) \<Rightarrow> TransactionData list \<Rightarrow> store \<Rightarrow> bool" where
  "appends Q old s \<longleftrightarrow>
     take (length old) (transactions s) = old \<and> list_all Q (loggedSince old s)"

text \<open>Three stakers without referrers, and an environment in which one call is rejected.\<close>

definition ledgerThree :: store where
  "ledgerThree =
     \<lparr>users = [(''alice'', newUser ''ALICE1'' (Decimal False 100 0)),
               (''bob'', newUser ''BOB1'' (Decimal False 200 0)),
               (''carol'', newUser ''CAROL1'' (Decimal False 300 0))],
      transactions = [], pool = pool0\<rparr>"

definition envRejecting :: "firestoreCall \<Rightarrow> env" where
  "envRejecting call = env0\<lparr>fails := (\<lambda>c. c = call)\<rparr>"

text \<open>One staker with 100 TON, before a run and after the run at time 1000.\<close>

definition ledgerStake100 :: store where
  "ledgerStake100 = \<lparr>users = [(''alice'', newUser ''ALICE1'' (Decimal False 100 0))],
                     transactions = [], pool = pool0\<rparr>"

definition ledgerAfterRun :: store where
  "ledgerAfterRun =
      \<lparr>users = [(''alice'', (newUser ''ALICE1'' (Decimal False 100 0))
                    \<lparr>rewardsBalance := Decimal False 20975342 9,
                     totalEarnings := Decimal False 20975342 9\<rparr>)],
       transactions =
         [\<lparr>userId = ''alice'', type = reward, amount = Decimal False 20975342 9,
           status = completed, description = DailyStakingReward False\<rparr>],
       pool = \<lparr>PoolData.totalStaked = 100, lastRewardDistribution = Some 1000,
                adminCommission = Decimal False 0 0\<rparr>\<rparr>"

text \<open>
  A premium account as the program makes it: \<^verbatim>\<open>updateUserPremiumStatus\<close> with an expiry date
  at time 500, on the ledger of the one staker with 100 TON. The runs below take place at
  time 1000, after the expiry.
\<close>

definition ledgerLapsed :: store where
  "ledgerLapsed =
     snd (updateUserPremiumStatus env0 ''alice'' True (Some 500) (Decimal False 105 1)
            ledgerStake100)"

text \<open>The same account with the expiry held as a number of milliseconds.\<close>

definition ledgerNumericExpiry :: store where
  "ledgerNumericExpiry =
     \<lparr>users = [(''alice'', (newUser ''ALICE1'' (Decimal False 100 0))
                   \<lparr>isPremium := True, premiumExpiresAt := Some (Millis 500),
                    premiumRate := Some (Decimal False 105 1)\<rparr>)],
      transactions = [], pool = pool0\<rparr>"

section \<open>Totals of a run\<close>

text \<open>
  The gross rewards, commissions and net rewards of the accounts a run processes, summed
  exactly, and the condition that the stakes of these accounts are in range.
\<close>

definition runGross :: "env \<Rightarrow> store \<Rightarrow> rat" where
  "runGross env s = (\<Sum>x\<leftarrow>getAllUsersWithStakes s. userReward env (snd x))"

definition runCommission :: "env \<Rightarrow> store \<Rightarrow> rat" where
  "runCommission env s = (\<Sum>x\<leftarrow>getAllUsersWithStakes s. userCommission (userReward env (snd x)))"

definition runNet :: "env \<Rightarrow> store \<Rightarrow> rat" where
  "runNet env s = (\<Sum>x\<leftarrow>getAllUsersWithStakes s. netUserReward (userReward env (snd x)))"

definition stakesInRange :: "store \<Rightarrow> bool" where
  "stakesInRange s = list_all (\<lambda>x. inRange (decValue (stakedAmount (snd x)))) (getAllUsersWithStakes s)"

text \<open>
  The balances of a snapshot are in range when its stake, its rewards balance and its total
  earnings are, and none is negative.
\<close>

definition balancesInRange :: "UserData \<Rightarrow> bool" where
  "balancesInRange u \<longleftrightarrow>
     list_all (\<lambda>d. \<not> neg d \<and> inRange (decValue d))
       [stakedAmount u, rewardsBalance u, totalEarnings u]"


text \<open>Further example ledgers.\<close>

definition ledgerStake41 :: store where
  "ledgerStake41 = \<lparr>users = [(''alice'', newUser ''ALICE1'' (Decimal False 41 0))],
                    transactions = [], pool = pool0\<rparr>"



text \<open>
  \<^verbatim>\<open>alice\<close>, referred by \<^verbatim>\<open>bob\<close>, with the stake \<^verbatim>\<open>"47675.02612330199"\<close>, whose net reward at the
  standard rate is exactly 10; \<^verbatim>\<open>bob\<close> stakes 500 TON himself and comes after her in the
  query (\<^verbatim>\<open>"47675.02612330199" < "500"\<close> as strings).
\<close>

definition ledgerReferral :: store where
  "ledgerReferral =
     \<lparr>users = [(''alice'', (newUser ''ALICE1'' (Decimal False 4767502612330199 11))
                              \<lparr>referredBy := Some ''bob''\<rparr>),
               (''bob'', newUser ''BOB1'' (Decimal False 500 0))],
      transactions = [], pool = pool0\<rparr>"

section \<open>Rounding\<close>

text \<open>Every operation is within half a unit in the last place of the exact result.\<close>

lemma pow2_power_int: "pow2 e = power_int 2 e"
  by (simp add: pow2_def power_int_def inverse_eq_divide power_one_over)

lemma pow2_pos: "0 < pow2 e"
  by (simp add: pow2_power_int)

lemma pow2_diff: "pow2 (a - b) = pow2 a / pow2 b"
  by (simp add: pow2_power_int power_int_diff)

lemma pow2_nat: "pow2 (int n) = 2 ^ n"
  by (simp add: pow2_def)

lemma ilog2_lower:
  assumes "0 < x"
  shows "pow2 (ilog2 x) \<le> x"
proof -
  obtain p q where pq: "quotient_of x = (p, q)" by (cases "quotient_of x")
  have q: "0 < q" using pq quotient_of_denom_pos by blast
  have x: "x = of_int p / of_int q" using pq quotient_of_div by blast
  have p: "0 < p" using assms q x by (simp add: zero_less_divide_iff)
  let ?d = "bitlen p - bitlen q"
  show ?thesis
  proof (cases "pow2 ?d \<le> x")
    case True
    then show ?thesis by (simp add: ilog2_def pq)
  next
    case False
    have bp: "2 ^ nat (bitlen p - 1) \<le> p" using bitlen_bounds [OF p] by simp
    have bq: "q < 2 ^ nat (bitlen q)" using bitlen_bounds [OF q] by simp
    have bp1: "1 \<le> bitlen p" using p by (simp add: bitlen_def floorlog_def)
    have bq0: "0 \<le> bitlen q" by (rule bitlen_nonneg)
    have "pow2 (?d - 1) = pow2 (bitlen p - 1) / pow2 (bitlen q)"
      by (simp add: pow2_diff [symmetric] algebra_simps)
    also have "\<dots> = 2 ^ nat (bitlen p - 1) / 2 ^ nat (bitlen q)"
      using bp1 bq0 by (simp add: pow2_def)
    also have "\<dots> \<le> of_int p / 2 ^ nat (bitlen q)"
    proof -
      have "(of_int (2 ^ nat (bitlen p - 1)) :: rat) \<le> of_int p" using bp by (simp only: of_int_le_iff)
      then show ?thesis by (simp add: divide_right_mono)
    qed
    also have "\<dots> \<le> of_int p / of_int q"
    proof -
      have "(of_int q :: rat) \<le> of_int (2 ^ nat (bitlen q))" using bq by (simp only: of_int_le_iff less_imp_le)
      then have "(of_int q :: rat) \<le> 2 ^ nat (bitlen q)" by simp
      moreover have "(0::rat) < of_int q" using q by simp
      moreover have "(0::rat) \<le> of_int p" using p by simp
      ultimately show ?thesis by (simp add: divide_left_mono)
    qed
    finally have "pow2 (?d - 1) \<le> x" using x by simp
    with False show ?thesis by (simp add: ilog2_def pq)
  qed
qed

lemma ilog2_upper:
  assumes "0 < x"
  shows "x < pow2 (ilog2 x + 1)"
proof -
  obtain p q where pq: "quotient_of x = (p, q)" by (cases "quotient_of x")
  have q: "0 < q" using pq quotient_of_denom_pos by blast
  have x: "x = of_int p / of_int q" using pq quotient_of_div by blast
  have p: "0 < p" using assms q x by (simp add: zero_less_divide_iff)
  let ?d = "bitlen p - bitlen q"
  show ?thesis
  proof (cases "pow2 ?d \<le> x")
    case False
    then show ?thesis by (simp add: ilog2_def pq)
  next
    case True
    have bp: "p < 2 ^ nat (bitlen p)" using bitlen_bounds [OF p] by simp
    have bq: "2 ^ nat (bitlen q - 1) \<le> q" using bitlen_bounds [OF q] by simp
    have bq1: "1 \<le> bitlen q" using q by (simp add: bitlen_def floorlog_def)
    have bp0: "0 \<le> bitlen p" by (rule bitlen_nonneg)
    have "x = of_int p / of_int q" by (rule x)
    also have "\<dots> \<le> of_int p / 2 ^ nat (bitlen q - 1)"
    proof (rule divide_left_mono)
      have "(of_int (2 ^ nat (bitlen q - 1)) :: rat) \<le> of_int q" using bq by (simp only: of_int_le_iff)
      then show "(2 ^ nat (bitlen q - 1) :: rat) \<le> of_int q" by simp
      show "(0::rat) \<le> of_int p" using p by simp
      have "(0::rat) < of_int q" using q by simp
      then show "(0::rat) < of_int q * 2 ^ nat (bitlen q - 1)" by simp
    qed
    also have "\<dots> < 2 ^ nat (bitlen p) / 2 ^ nat (bitlen q - 1)"
    proof -
      have "(of_int p :: rat) < of_int (2 ^ nat (bitlen p))" using bp by (simp only: of_int_less_iff)
      then show ?thesis by (simp add: divide_strict_right_mono)
    qed
    also have "\<dots> = pow2 (bitlen p) / pow2 (bitlen q - 1)"
      using bp0 bq1 by (simp add: pow2_def)
    also have "\<dots> = pow2 (?d + 1)"
      by (simp add: pow2_diff [symmetric] algebra_simps)
    finally show ?thesis using True by (simp add: ilog2_def pq)
  qed
qed

lemma roundTiesToEven_error: "\<bar>of_int (roundTiesToEven y) - y\<bar> \<le> 1 / 2"
proof -
  have "of_int \<lfloor>y\<rfloor> \<le> y" "y < of_int \<lfloor>y\<rfloor> + 1" by linarith+
  then show ?thesis
    unfolding roundTiesToEven_def Let_def
    by (simp only: abs_if of_int_add of_int_1 split: if_splits) (auto; linarith)
qed

lemma fl_error: "\<bar>fl x - x\<bar> \<le> \<bar>x\<bar> / 2 ^ 53"
proof (cases "x = 0")
  case True
  then show ?thesis by (simp add: fl_def)
next
  case False
  define u where "u = pow2 (ilog2 \<bar>x\<bar> - 52)"
  have u: "0 < u" by (simp add: u_def pow2_pos)
  have flx: "fl x = of_int (roundTiesToEven (x / u)) * u"
    using False by (simp add: fl_def u_def Let_def)
  have "fl x - x = (of_int (roundTiesToEven (x / u)) - x / u) * u"
    using u by (simp add: flx field_simps)
  then have "\<bar>fl x - x\<bar> = \<bar>of_int (roundTiesToEven (x / u)) - x / u\<bar> * u"
    using u by (simp add: abs_mult)
  also have "\<dots> \<le> 1 / 2 * u"
    using roundTiesToEven_error [of "x / u"] u by (simp add: mult_right_mono)
  also have "\<dots> = pow2 (ilog2 \<bar>x\<bar>) / 2 ^ 53"
  proof -
    have "u = pow2 (ilog2 \<bar>x\<bar>) / pow2 52" by (simp add: u_def pow2_diff)
    also have "pow2 52 = 2 ^ 52" by (simp add: pow2_def)
    finally show ?thesis by simp
  qed
  also have "\<dots> \<le> \<bar>x\<bar> / 2 ^ 53"
    using ilog2_lower [of "\<bar>x\<bar>"] False by (simp add: divide_right_mono)
  finally show ?thesis .
qed








subsection \<open>Amounts in range give normal doubles\<close>

lemma fl_between:
  assumes "lo \<le> \<bar>x\<bar>" and "\<bar>x\<bar> \<le> hi"
  shows "lo / 2 \<le> \<bar>fl x\<bar>" and "\<bar>fl x\<bar> \<le> 2 * hi"
proof -
  have e: "\<bar>fl x - x\<bar> \<le> \<bar>x\<bar> / 2 ^ 53" by (rule fl_error)
  have "\<bar>x\<bar> / 2 ^ 53 \<le> \<bar>x\<bar> / 2" by (rule divide_left_mono) simp_all
  with e have h: "\<bar>fl x - x\<bar> \<le> \<bar>x\<bar> / 2" by linarith
  show "lo / 2 \<le> \<bar>fl x\<bar>" using h assms(1) by linarith
  show "\<bar>fl x\<bar> \<le> 2 * hi" using h assms(2) by linarith
qed

lemma jsMul_between:
  assumes "lo \<le> \<bar>a\<bar>" and "\<bar>a\<bar> \<le> hi" and "lo' \<le> \<bar>b\<bar>" and "\<bar>b\<bar> \<le> hi'"
    and "0 \<le> lo" and "0 \<le> lo'"
  shows "lo * lo' / 2 \<le> \<bar>jsMul a b\<bar>" and "\<bar>jsMul a b\<bar> \<le> 2 * (hi * hi')"
proof -
  have l: "lo * lo' \<le> \<bar>a * b\<bar>"
    unfolding abs_mult using assms(1,3,5,6) by (intro mult_mono) simp_all
  have h0: "0 \<le> hi" using assms(2) by linarith
  have u: "\<bar>a * b\<bar> \<le> hi * hi'"
    unfolding abs_mult by (rule mult_mono [OF assms(2) assms(4) h0 abs_ge_zero])
  show "lo * lo' / 2 \<le> \<bar>jsMul a b\<bar>" unfolding jsMul_def using l u by (rule fl_between)
  show "\<bar>jsMul a b\<bar> \<le> 2 * (hi * hi')" unfolding jsMul_def using l u by (rule fl_between)
qed

lemma sub_between:
  fixes g c :: rat
  assumes "\<bar>c\<bar> \<le> \<bar>g\<bar> / 4" and "lo \<le> \<bar>g\<bar>" and "\<bar>g\<bar> \<le> hi"
  shows "lo / 2 \<le> \<bar>g - c\<bar>" and "\<bar>g - c\<bar> \<le> 2 * hi"
  using assms by linarith+

lemma rate_bounds:
  "1 / 2 ^ 13 \<le> \<bar>dailyRate b\<bar>" "\<bar>dailyRate b\<bar> \<le> 1 / 2 ^ 11"
  "1 / 2 ^ 4 \<le> \<bar>fl (12 / 100)\<bar>" "\<bar>fl (12 / 100)\<bar> \<le> 1 / 2 ^ 3"
proof -
  have "1 / 2 ^ 13 \<le> \<bar>dailyRate True\<bar>" "\<bar>dailyRate True\<bar> \<le> 1 / 2 ^ 11"
    "1 / 2 ^ 13 \<le> \<bar>dailyRate False\<bar>" "\<bar>dailyRate False\<bar> \<le> 1 / 2 ^ 11"
    by code_simp+
  then show "1 / 2 ^ 13 \<le> \<bar>dailyRate b\<bar>" "\<bar>dailyRate b\<bar> \<le> 1 / 2 ^ 11"
    by (cases b; simp)+
  show "1 / 2 ^ 4 \<le> \<bar>fl (12 / 100)\<bar>" "\<bar>fl (12 / 100)\<bar> \<le> 1 / 2 ^ 3"
    by code_simp+
qed

lemma normalDouble_between:
  assumes "lo \<le> \<bar>x\<bar>" and "\<bar>x\<bar> \<le> hi" and "1 / 2 ^ 600 \<le> lo" and "hi \<le> 2 ^ 100"
  shows "normalDouble x"
proof -
  have "pow2 (- 1022) \<le> 1 / 2 ^ 600" "(2::rat) ^ 100 < pow2 1024"
    by (simp_all add: pow2_def)
  then show ?thesis using assms unfolding normalDouble_def by linarith
qed

lemma figures_normal:
  assumes v: "inRange v" and nz: "v \<noteq> 0"
  shows "normalDouble (fl v)"
    and "normalDouble (jsMul (fl v) (dailyRate b))"
    and "normalDouble (userCommission (jsMul (fl v) (dailyRate b)))"
    and "normalDouble (netUserReward (jsMul (fl v) (dailyRate b)))"
proof -
  define g where "g = jsMul (fl v) (dailyRate b)"
  define c where "c = userCommission g"
  have v1: "1 / 2 ^ 500 \<le> \<bar>v\<bar>" and v2: "\<bar>v\<bar> \<le> 2 ^ 67"
    using v nz by (simp_all add: inRange_def)
  have x1: "1 / 2 ^ 501 \<le> \<bar>fl v\<bar>" and x2: "\<bar>fl v\<bar> \<le> 2 ^ 68"
    using fl_between [OF v1 v2] by simp_all
  have g1: "1 / 2 ^ 515 \<le> \<bar>g\<bar>" and g2: "\<bar>g\<bar> \<le> 2 ^ 58"
    using jsMul_between [OF x1 x2 rate_bounds(1,2), of b] by (simp_all add: g_def)
  have c1: "1 / 2 ^ 520 \<le> \<bar>c\<bar>" and c2: "\<bar>c\<bar> \<le> 2 ^ 56"
    using jsMul_between [OF g1 g2 rate_bounds(3,4)] by (simp_all add: c_def userCommission_def)
  have "\<bar>c\<bar> \<le> 2 * (\<bar>g\<bar> * (1 / 2 ^ 3))"
    unfolding c_def userCommission_def
    by (rule jsMul_between [OF order_refl order_refl rate_bounds(3,4)]) simp_all
  then have c3: "\<bar>c\<bar> \<le> \<bar>g\<bar> / 4" by simp
  have n1: "1 / 2 ^ 516 \<le> \<bar>g - c\<bar>" and n2: "\<bar>g - c\<bar> \<le> 2 ^ 59"
    using sub_between [OF c3 g1 g2] by simp_all
  have m1: "1 / 2 ^ 517 \<le> \<bar>fl (g - c)\<bar>" and m2: "\<bar>fl (g - c)\<bar> \<le> 2 ^ 60"
    using fl_between [OF n1 n2] by simp_all
  show "normalDouble (fl v)"
    by (rule normalDouble_between [OF x1 x2]) simp_all
  show "normalDouble (jsMul (fl v) (dailyRate b))"
    using g1 g2 unfolding g_def by (rule normalDouble_between) simp_all
  show "normalDouble (userCommission (jsMul (fl v) (dailyRate b)))"
    using c1 c2 unfolding c_def g_def by (rule normalDouble_between) simp_all
  show "normalDouble (netUserReward (jsMul (fl v) (dailyRate b)))"
    using m1 m2 unfolding netUserReward_def jsSub_def c_def g_def
    by (rule normalDouble_between) simp_all
qed

lemma figures_zero:
  "fl 0 = 0" "jsMul 0 d = 0" "userCommission 0 = 0" "netUserReward 0 = 0"
  by (simp_all add: fl_def jsMul_def userCommission_def netUserReward_def jsSub_def)

lemma reward_figures_normal:
  assumes "inRange (decValue (stakedAmount u))"
  shows "(parseFloat (stakedAmount u) = 0 \<and> userReward env u = 0
          \<and> userCommission (userReward env u) = 0 \<and> netUserReward (userReward env u) = 0)
       \<or> (normalDouble (parseFloat (stakedAmount u)) \<and> normalDouble (userReward env u)
          \<and> normalDouble (userCommission (userReward env u))
          \<and> normalDouble (netUserReward (userReward env u)))"
proof (cases "decValue (stakedAmount u) = 0")
  case True
  then show ?thesis by (simp add: parseFloat_def userReward_def figures_zero)
next
  case False
  from figures_normal [OF assms False] show ?thesis
    by (simp add: parseFloat_def userReward_def)
qed

section \<open>Documents\<close>

lemma map_of_map_entry_at:
  "map_of (AList.map_entry k f al) k' =
     (if k' = k then map_option f (map_of al k) else map_of al k')"
  by (simp add: AList.map_of_map_entry split: option.splits)


section \<open>The steps of a distribution run\<close>

subsection \<open>The pool document is not read\<close>

lemma getUserData_pool:
  "getUserData env k (s\<lparr>pool := p\<rparr>)
     = (fst (getUserData env k s), (snd (getUserData env k s))\<lparr>pool := p\<rparr>)"
  by (simp add: getUserData_def Let_def split: option.splits)

lemma updateUserBalance_pool:
  "updateUserBalance env k f (s\<lparr>pool := p\<rparr>)
     = (fst (updateUserBalance env k f s), (snd (updateUserBalance env k f s))\<lparr>pool := p\<rparr>)"
  by (simp add: updateUserBalance_def)

lemma logTransaction_pool:
  "logTransaction env t (s\<lparr>pool := p\<rparr>)
     = (fst (logTransaction env t s), (snd (logTransaction env t s))\<lparr>pool := p\<rparr>)"
  by (simp add: logTransaction_def)

lemma updateUserPremiumStatus_pool:
  "updateUserPremiumStatus env k b e r (s\<lparr>pool := p\<rparr>)
     = (fst (updateUserPremiumStatus env k b e r s),
        (snd (updateUserPremiumStatus env k b e r s))\<lparr>pool := p\<rparr>)"
  by (simp add: updateUserPremiumStatus_def Let_def)

lemma processReferralBonus_pool:
  "processReferralBonus env r x k (s\<lparr>pool := p\<rparr>) = (processReferralBonus env r x k s)\<lparr>pool := p\<rparr>"
  by (simp add: processReferralBonus_def Let_def getUserData_pool updateUserBalance_pool
      logTransaction_pool split: prod.splits sum.splits)

lemma distributeUserRewardWithPremium_pool:
  "distributeUserRewardWithPremium env u t (s\<lparr>pool := p\<rparr>)
     = (distributeUserRewardWithPremium env u t s)\<lparr>pool := p\<rparr>"
  by (simp add: distributeUserRewardWithPremium_def Let_def updateUserPremiumStatus_pool
      updateUserBalance_pool logTransaction_pool processReferralBonus_pool
      split: prod.splits sum.splits option.splits)

lemma foldl_distribute_pool:
  "foldl (\<lambda>st u. distributeUserRewardWithPremium env u t st) (s\<lparr>pool := p\<rparr>) xs
     = (foldl (\<lambda>st u. distributeUserRewardWithPremium env u t st) s xs)\<lparr>pool := p\<rparr>"
  by (induction xs arbitrary: s) (simp_all add: distributeUserRewardWithPremium_pool)

subsection \<open>What every step of a run preserves\<close>

text \<open>
  A property of the ledger that the four store operations preserve is preserved by the
  referral bonus and by the processing of one account.
\<close>

lemma processReferralBonus_preserves:
  assumes "P s"
    and "\<And>s. P s \<Longrightarrow> P (snd (getUserData env r s))"
    and "\<And>s f. P s \<Longrightarrow> P (snd (updateUserBalance env r f s))"
    and "\<And>s t. P s \<Longrightarrow> userId t = r \<Longrightarrow> status t = completed \<Longrightarrow> type t = referral
           \<Longrightarrow> P (snd (logTransaction env t s))"
  shows "P (processReferralBonus env r v k s)"
proof -
  obtain res s0 where g: "getUserData env r s = (res, s0)" by (cases "getUserData env r s")
  have s0: "P s0" using assms(2) [OF assms(1)] g by simp
  show ?thesis
  proof (cases res)
    case (Inl e)
    with g s0 show ?thesis by (simp add: processReferralBonus_def Let_def)
  next
    case (Inr referrerData)
    let ?f = "\<lambda>u. u\<lparr>rewardsBalance := toFixed 9 (jsAdd (parseFloat (rewardsBalance referrerData))
                                (jsMul v (fl (10 / 100)))),
                      totalEarnings := toFixed 9 (jsAdd (parseFloat (totalEarnings referrerData))
                                (jsMul v (fl (10 / 100))))\<rparr>"
    obtain r1 s1 where u1: "updateUserBalance env r ?f s0 = (r1, s1)"
      by (cases "updateUserBalance env r ?f s0")
    have s1: "P s1" using assms(3) [OF s0, of ?f] u1 by simp
    show ?thesis
    proof (cases r1)
      case (Inl e)
      with g Inr u1 s1 show ?thesis by (simp add: processReferralBonus_def Let_def)
    next
      case r1: (Inr c)
      let ?t = "\<lparr>userId = r, type = referral, amount = toFixed 9 (jsMul v (fl (10 / 100))),
                 status = completed,
                 description = ReferralBonusFromUser k (toFixed 9 v)\<rparr>"
      have "P (snd (logTransaction env ?t s1))" using s1 by (rule assms(4)) simp_all
      with g Inr u1 r1 show ?thesis by (simp add: processReferralBonus_def Let_def)
    qed
  qed
qed

lemma distributeUserRewardWithPremium_preserves:
  assumes "P s"
    and "\<And>s. P s \<Longrightarrow>
           P (snd (updateUserPremiumStatus env (fst x) False None (Decimal False 87 1) s))"
    and "\<And>s f. P s \<Longrightarrow> P (snd (updateUserBalance env (fst x) f s))"
    and "\<And>s. P s \<Longrightarrow> P (snd (logTransaction env (rewardTransaction env x) s))"
    and "\<And>s r v. P s \<Longrightarrow> referredBy (snd x) = Some r \<Longrightarrow> P (processReferralBonus env r v (fst x) s)"
  shows "P (distributeUserRewardWithPremium env x t s)"
proof -
  obtain uid u where x: "x = (uid, u)" by (cases x)
  let ?e = "if premiumExpired env u
            then updateUserPremiumStatus env uid False None (Decimal False 87 1) s
            else (Inr (), s)"
  obtain r0 s0 where e: "?e = (r0, s0)" by (cases ?e)
  have s0: "P s0"
    using e assms(1) assms(2) [OF assms(1)] x by (auto split: if_splits)
  show ?thesis
  proof (cases r0)
    case (Inl a)
    with e s0 show ?thesis by (simp add: distributeUserRewardWithPremium_def x Let_def)
  next
    case (Inr b)
    let ?f = "\<lambda>d. d\<lparr>rewardsBalance := toFixed 9 (jsAdd (parseFloat (rewardsBalance u))
                               (netUserReward (userReward env u))),
                     totalEarnings := toFixed 9 (jsAdd (parseFloat (totalEarnings u))
                               (netUserReward (userReward env u)))\<rparr>"
    obtain r1 s1 where u1: "updateUserBalance env uid ?f s0 = (r1, s1)"
      by (cases "updateUserBalance env uid ?f s0")
    have s1: "P s1" using assms(3) [OF s0, of ?f] u1 x by simp
    show ?thesis
    proof (cases r1)
      case (Inl a)
      with e Inr u1 s1 show ?thesis by (simp add: distributeUserRewardWithPremium_def x Let_def)
    next
      case r1: (Inr c)
      let ?t = "\<lparr>userId = uid, type = reward,
                 amount = toFixed 9 (netUserReward (userReward env u)),
                 status = completed,
                 description = DailyStakingReward (premiumActive env u)\<rparr>"
      obtain r2 s2 where l2: "logTransaction env ?t s1 = (r2, s2)"
        by (cases "logTransaction env ?t s1")
      have tt: "?t = rewardTransaction env x" by (simp add: rewardTransaction_def x)
      have "P (snd (logTransaction env ?t s1))" unfolding tt using s1 by (rule assms(4))
      then have s2: "P s2" using l2 by simp
      show ?thesis
        using e Inr u1 r1 l2 s2 x assms(5) [OF s2]
        by (cases r2; cases "referredBy u")
           (auto simp: distributeUserRewardWithPremium_def Let_def)
    qed
  qed
qed

subsection \<open>Frame\<close>

lemma getUserData_frame:
  "map_of (users s) y = Some d \<Longrightarrow> map_of (users (snd (getUserData env k s))) y = Some d"
  by (auto simp: getUserData_def Let_def split: option.splits)

lemma getUserData_result:
  "getUserData env k s = (Inr d, s') \<Longrightarrow> map_of (users s') k = Some d"
  by (auto simp: getUserData_def Let_def map_add_def split: option.splits if_splits)

lemma getUserData_transactions:
  "transactions (snd (getUserData env k s)) = transactions s"
  by (auto simp: getUserData_def Let_def split: option.splits)

lemma updateUserBalance_frame:
  "y \<noteq> k \<Longrightarrow> map_of (users (snd (updateUserBalance env k f s))) y = map_of (users s) y"
  by (simp add: updateUserBalance_def map_of_map_entry_at)

lemma updateUserBalance_transactions:
  "transactions (snd (updateUserBalance env k f s)) = transactions s"
  by (simp add: updateUserBalance_def)

lemma updateUserPremiumStatus_frame:
  "y \<noteq> k \<Longrightarrow> map_of (users (snd (updateUserPremiumStatus env k b e r s))) y = map_of (users s) y"
  by (simp add: updateUserPremiumStatus_def Let_def map_of_map_entry_at)

lemma logTransaction_users:
  "users (snd (logTransaction env t s)) = users s"
  by (simp add: logTransaction_def)

lemma processReferralBonus_frame:
  assumes "map_of (users s) y = Some d" and "y \<noteq> r"
  shows "map_of (users (processReferralBonus env r v k s)) y = Some d"
  using assms(1)
  by (rule processReferralBonus_preserves)
     (simp_all add: getUserData_frame updateUserBalance_frame logTransaction_users assms(2))

lemma distributeUserRewardWithPremium_frame:
  assumes y: "map_of (users s) y = Some d" and ne: "y \<noteq> fst x" and nr: "referredBy (snd x) \<noteq> Some y"
  shows "map_of (users (distributeUserRewardWithPremium env x t s)) y = Some d"
  using y
proof (rule distributeUserRewardWithPremium_preserves)
  fix s :: store and r v
  assume "map_of (users s) y = Some d" "referredBy (snd x) = Some r"
  then show "map_of (users (processReferralBonus env r v (fst x) s)) y = Some d"
    using nr by (intro processReferralBonus_frame) auto
qed (simp_all add: updateUserPremiumStatus_frame updateUserBalance_frame logTransaction_users ne)

subsection \<open>Documents are never removed\<close>

lemma updateUserBalance_exists:
  "map_of (users s) y \<noteq> None \<Longrightarrow> map_of (users (snd (updateUserBalance env k f s))) y \<noteq> None"
  by (auto simp: updateUserBalance_def map_of_map_entry_at)

lemma updateUserPremiumStatus_exists:
  "map_of (users s) y \<noteq> None
   \<Longrightarrow> map_of (users (snd (updateUserPremiumStatus env k b e r s))) y \<noteq> None"
  by (auto simp: updateUserPremiumStatus_def Let_def map_of_map_entry_at)

lemma getUserData_exists:
  "map_of (users s) y \<noteq> None \<Longrightarrow> map_of (users (snd (getUserData env k s))) y \<noteq> None"
  using getUserData_frame [of s y _ env k] by auto

lemma processReferralBonus_exists:
  "map_of (users s) y \<noteq> None \<Longrightarrow> map_of (users (processReferralBonus env r v k s)) y \<noteq> None"
  by (rule processReferralBonus_preserves)
     (simp_all add: getUserData_exists updateUserBalance_exists logTransaction_users)

lemma distributeUserRewardWithPremium_exists:
  "map_of (users s) y \<noteq> None
   \<Longrightarrow> map_of (users (distributeUserRewardWithPremium env x t s)) y \<noteq> None"
  by (rule distributeUserRewardWithPremium_preserves)
     (simp_all add: updateUserPremiumStatus_exists updateUserBalance_exists logTransaction_users
        processReferralBonus_exists)

subsection \<open>Transactions are only appended, with status \<^verbatim>\<open>completed\<close>\<close>

lemma appends_iff:
  "appends Q old s \<longleftrightarrow> (\<exists>new. transactions s = old @ new \<and> list_all Q new)"
proof
  assume "appends Q old s"
  then have "transactions s = old @ drop (length old) (transactions s)"
    "list_all Q (drop (length old) (transactions s))"
    by (auto simp: appends_def loggedSince_def) (metis append_take_drop_id)
  then show "\<exists>new. transactions s = old @ new \<and> list_all Q new"
    by blast
next
  assume "\<exists>new. transactions s = old @ new \<and> list_all Q new"
  then show "appends Q old s" by (auto simp: appends_def loggedSince_def)
qed

lemma extends_appends: "extends old s = appends (\<lambda>t. status t = completed) old s"
  by (simp add: extends_def appends_def)

lemma extends_iff:
  "extends old s \<longleftrightarrow>
     (\<exists>new. transactions s = old @ new \<and> list_all (\<lambda>t. status t = completed) new)"
  by (simp add: extends_appends appends_iff)

lemma extends_refl: "extends (transactions s) s"
  by (simp add: extends_def loggedSince_def)

lemma extends_same: "transactions s' = transactions s \<Longrightarrow> extends old s \<Longrightarrow> extends old s'"
  by (simp add: extends_def loggedSince_def)

lemma logTransaction_extends:
  "extends old s \<Longrightarrow> status t = completed \<Longrightarrow> extends old (snd (logTransaction env t s))"
  by (auto simp: logTransaction_def extends_iff)

lemma updateUserPremiumStatus_extends:
  "extends old s \<Longrightarrow> extends old (snd (updateUserPremiumStatus env k b e r s))"
  by (auto simp: updateUserPremiumStatus_def Let_def extends_iff)

lemma processReferralBonus_extends:
  "extends old s \<Longrightarrow> extends old (processReferralBonus env r v k s)"
  by (rule processReferralBonus_preserves)
     (auto intro: logTransaction_extends
        extends_same [OF getUserData_transactions] extends_same [OF updateUserBalance_transactions])

lemma distributeUserRewardWithPremium_extends:
  "extends old s \<Longrightarrow> extends old (distributeUserRewardWithPremium env x t s)"
  by (rule distributeUserRewardWithPremium_preserves)
     (auto intro: logTransaction_extends updateUserPremiumStatus_extends
        processReferralBonus_extends extends_same [OF updateUserBalance_transactions]
        simp: rewardTransaction_def)

subsection \<open>The records a run logs\<close>







lemma extends_loggedSince:
  assumes "extends (transactions s) s'"
  shows "set (loggedSince old s) \<subseteq> set (loggedSince old s')"
    and "length (transactions s) \<le> length (transactions s')"
proof -
  obtain new where n: "transactions s' = transactions s @ new"
    using assms by (auto simp: extends_iff)
  show "set (loggedSince old s) \<subseteq> set (loggedSince old s')"
    by (auto simp: loggedSince_def n)
  show "length (transactions s) \<le> length (transactions s')"
    by (simp add: n)
qed

subsection \<open>The credit of an account whose writes are accepted\<close>

lemma distribute_accepted:
  assumes acc: "storeAccepts env uid" and ex: "map_of (users s) uid \<noteq> None"
  shows "distributeUserRewardWithPremium env (uid, u) t s =
     (let s2 = credited env (uid, u) (if premiumExpired env u then expirePremium uid s else s)
      in case referredBy u of
           None \<Rightarrow> s2
         | Some r \<Rightarrow> if r = [] then s2
                     else processReferralBonus env r (netUserReward (userReward env u)) uid s2)"
  using acc ex
  by (auto simp: distributeUserRewardWithPremium_def Let_def storeAccepts_def
      updateUserPremiumStatus_def updateUserBalance_def logTransaction_def
      expirePremium_def credited_def creditReward_def rewardTransaction_def
      map_of_map_entry_at split: option.splits)

lemma credited_creditedTo:
  assumes "map_of (users s) uid \<noteq> None" and "length old \<le> length (transactions s)"
  shows "creditedTo old env (uid, u) (credited env (uid, u) s)"
  using assms
  by (auto simp: creditedTo_def credited_def creditReward_def map_of_map_entry_at loggedSince_def)

lemma expirePremium_exists:
  "map_of (users s) y \<noteq> None \<Longrightarrow> map_of (users (expirePremium k s)) y \<noteq> None"
  by (auto simp: expirePremium_def map_of_map_entry_at)

lemma processReferralBonus_creditedTo:
  assumes "creditedTo old env (uid, u) s" and "r \<noteq> uid"
  shows "creditedTo old env (uid, u) (processReferralBonus env r v k s)"
proof -
  obtain d where d: "map_of (users s) uid = Some d"
    using assms(1) by (auto simp: creditedTo_def)
  have "map_of (users (processReferralBonus env r v k s)) uid = Some d"
    using d assms(2) by (intro processReferralBonus_frame) auto
  moreover have "set (loggedSince old s) \<subseteq> set (loggedSince old (processReferralBonus env r v k s))"
    by (intro extends_loggedSince processReferralBonus_extends extends_refl)
  ultimately show ?thesis using assms(1) d by (auto simp: creditedTo_def)
qed

lemma distribute_creditedTo:
  assumes acc: "storeAccepts env uid" and ex: "map_of (users s) uid \<noteq> None"
    and nr: "referredBy u \<noteq> Some uid" and len: "length old \<le> length (transactions s)"
  shows "creditedTo old env (uid, u) (distributeUserRewardWithPremium env (uid, u) t s)"
proof -
  let ?s1 = "if premiumExpired env u then expirePremium uid s else s"
  let ?s2 = "credited env (uid, u) ?s1"
  have "length old \<le> length (transactions ?s1)"
    using len by (simp add: expirePremium_def)
  moreover have "map_of (users ?s1) uid \<noteq> None"
    using ex expirePremium_exists [of s uid uid] by simp
  ultimately have c: "creditedTo old env (uid, u) ?s2"
    by (intro credited_creditedTo)
  show ?thesis
    using c nr
    by (auto simp: distribute_accepted [OF acc ex] Let_def processReferralBonus_creditedTo
        split: option.splits)
qed

lemma distribute_keeps_creditedTo:
  assumes c: "creditedTo old env (y, u) s" and ne: "y \<noteq> fst x" and nr: "referredBy (snd x) \<noteq> Some y"
  shows "creditedTo old env (y, u) (distributeUserRewardWithPremium env' x t s)"
proof -
  obtain d where d: "map_of (users s) y = Some d"
    using c by (auto simp: creditedTo_def)
  have "map_of (users (distributeUserRewardWithPremium env' x t s)) y = Some d"
    using d ne nr by (rule distributeUserRewardWithPremium_frame)
  moreover have "set (loggedSince old s)
      \<subseteq> set (loggedSince old (distributeUserRewardWithPremium env' x t s))"
    by (intro extends_loggedSince distributeUserRewardWithPremium_extends extends_refl)
  ultimately show ?thesis using c d by (auto simp: creditedTo_def)
qed

lemma foldl_keeps_creditedTo:
  assumes "creditedTo old env (y, u) s" and "y \<notin> fst ` set xs"
    and "\<forall>x \<in> set xs. referredBy (snd x) \<noteq> Some y"
  shows "creditedTo old env (y, u)
           (foldl (\<lambda>st x. distributeUserRewardWithPremium env x t st) s xs)"
  using assms
  by (induction xs arbitrary: s) (auto simp: distribute_keeps_creditedTo)

lemma foldl_creditedTo:
  assumes "(y, u) \<in> set xs" and "distinct (map fst xs)" and "map_of (users s) y \<noteq> None"
    and "storeAccepts env y" and "\<forall>x \<in> set xs. referredBy (snd x) \<noteq> Some y"
    and "length old \<le> length (transactions s)"
  shows "creditedTo old env (y, u)
           (foldl (\<lambda>st x. distributeUserRewardWithPremium env x t st) s xs)"
  using assms
proof (induction xs arbitrary: s)
  case Nil
  then show ?case by simp
next
  case (Cons x xs)
  show ?case
  proof (cases "x = (y, u)")
    case True
    have "creditedTo old env (y, u) (distributeUserRewardWithPremium env (y, u) t s)"
      using Cons.prems True by (intro distribute_creditedTo) auto
    moreover have "y \<notin> fst ` set xs" using Cons.prems(2) True by auto
    ultimately show ?thesis
      using Cons.prems(5) True by (simp add: foldl_keeps_creditedTo)
  next
    case False
    let ?s' = "distributeUserRewardWithPremium env x t s"
    have "(y, u) \<in> set xs" using Cons.prems(1) False by simp
    moreover have "map_of (users ?s') y \<noteq> None"
      using Cons.prems(3) by (rule distributeUserRewardWithPremium_exists)
    moreover have "length (transactions s) \<le> length (transactions ?s')"
      by (intro extends_loggedSince distributeUserRewardWithPremium_extends extends_refl)
    then have "length old \<le> length (transactions ?s')"
      using Cons.prems(6) by simp
    ultimately show ?thesis
      using Cons.prems Cons.IH [of ?s'] by simp
  qed
qed

subsection \<open>The whole run\<close>

lemma foldl_extends:
  "extends old s \<Longrightarrow> extends old (foldl (\<lambda>st x. distributeUserRewardWithPremium env x t st) s xs)"
  by (induction xs arbitrary: s) (simp_all add: distributeUserRewardWithPremium_extends)

lemma extends_pool: "extends old (s\<lparr>pool := p\<rparr>) = extends old s"
  by (simp add: extends_def loggedSince_def)

lemma distributeRewards_extends: "extends (transactions s) (snd (distributeRewards env s))"
proof -
  have "extends (transactions s)
          (foldl (\<lambda>st x. distributeUserRewardWithPremium env x t st) s xs)" for t xs
    by (rule foldl_extends) (rule extends_refl)
  then show ?thesis
    by (simp add: distributeRewards_def Let_def extends_refl extends_pool)
qed

lemma distributeRewards_creditedTo:
  assumes q: "\<not> fails env QueryUsers" and t: "totalStakedOf (getAllUsersWithStakes s) \<noteq> 0"
    and d: "distinct (map fst (users s))" and m: "(y, u) \<in> set (getAllUsersWithStakes s)"
    and a: "storeAccepts env y"
    and r: "\<forall>x \<in> set (getAllUsersWithStakes s). referredBy (snd x) \<noteq> Some y"
  shows "creditedTo (transactions s) env (y, u) (snd (distributeRewards env s))"
proof -
  let ?xs = "getAllUsersWithStakes s"
  have dx: "distinct (map fst ?xs)"
    using d by (simp add: getAllUsersWithStakes_def distinct_map_filter)
  have "(y, u) \<in> set (users s)" using m by (simp add: getAllUsersWithStakes_def)
  then have ex: "map_of (users s) y \<noteq> None"
    using weak_map_of_SomeI by fastforce
  have c: "creditedTo (transactions s) env (y, u)
          (foldl (\<lambda>st x. distributeUserRewardWithPremium env x (totalStakedOf ?xs) st) s ?xs)"
    using m dx ex a r by (rule foldl_creditedTo) simp
  have ne: "?xs \<noteq> []" using m by auto
  show ?thesis
    using q t ne c by (simp add: distributeRewards_def Let_def creditedTo_def loggedSince_def)
qed




section \<open>Sums and concrete values\<close>

lemma sum_list_abs_bound:
  fixes f g :: "'a \<Rightarrow> rat"
  assumes "\<And>x. x \<in> set xs \<Longrightarrow> \<bar>f x\<bar> \<le> g x"
  shows "\<bar>\<Sum>x\<leftarrow>xs. f x\<bar> \<le> (\<Sum>x\<leftarrow>xs. g x)"
  using assms
proof (induction xs)
  case Nil
  then show ?case by simp
next
  case (Cons a xs)
  have "\<bar>f a + (\<Sum>x\<leftarrow>xs. f x)\<bar> \<le> \<bar>f a\<bar> + \<bar>\<Sum>x\<leftarrow>xs. f x\<bar>" by (rule abs_triangle_ineq)
  also have "\<dots> \<le> g a + (\<Sum>x\<leftarrow>xs. g x)"
    using Cons by (intro add_mono) auto
  finally show ?case by simp
qed

lemma sum_list_divide:
  fixes f :: "'a \<Rightarrow> rat"
  shows "(\<Sum>x\<leftarrow>xs. f x / c) = (\<Sum>x\<leftarrow>xs. f x) / c"
  by (induction xs) (simp_all add: add_divide_distrib)


lemma standard_41:
  "jsMul (parseFloat (Decimal False 41 0)) (dailyRate False)
     = 5633521927304963 / 576460752303423488"
  "userCommission (5633521927304963 / 576460752303423488)
     = 1352045262553191 / 1152921504606846976"
  "netUserReward (5633521927304963 / 576460752303423488)
     = 309843706001773 / 36028797018963968"
  "jsAdd (309843706001773 / 36028797018963968) (1352045262553191 / 1152921504606846976)
     = 1408380481826241 / 144115188075855872"
  by code_simp+



section \<open>Self-referral\<close>

text \<open>
  Claim C8. A referral code that resolves to the user's own account is rejected by both
  registration paths: \<^verbatim>\<open>processReferral\<close> returns \<^verbatim>\<open>false\<close> and
  \<^verbatim>\<open>POST /api/referral/register\<close> answers with an error status, and in both the ledger,
  so also the user's \<open>referredBy\<close>, is left as it was.
\<close>

theorem self_referral_rejected:
  "(find (\<lambda>(i, u). referralCode u = code) (users s) = Some (uid, referrerDoc)
      \<longrightarrow> processReferral env uid code s = (False, s))
   \<and> (getUserByReferralCode senv rcode st = Some (j, referrerUser) \<and> User.telegramId referrerUser = tid
      \<longrightarrow> fst (referralRegister senv tid rcode st) \<noteq> Json200
          \<and> snd (referralRegister senv tid rcode st) = st)"
  by (auto simp: processReferral_def referralRegister_def split: option.splits prod.splits)

theorem self_referral_rejected_witness:
  "processReferral env0 ''alice'' ''ALICE1'' ledgerAlice = (False, ledgerAlice)
   \<and> fst (referralRegister senv0 ''alice'' ''alice1'' storageAlice) \<noteq> Json200
   \<and> snd (referralRegister senv0 ''alice'' ''alice1'' storageAlice) = storageAlice"
  using self_referral_rejected [where code = "''ALICE1''" and s = ledgerAlice and uid = "''alice''"
      and referrerDoc = "newUser ''ALICE1'' (Decimal False 0 0)" and env = env0 and senv = senv0
      and rcode = "''alice1''" and st = storageAlice and j = "''doc1''"
      and referrerUser = "member ''alice'' ''alice1''" and tid = "''alice''"]
  by (simp add: ledgerAlice_def storageAlice_def newUser_def member_def
      getUserByReferralCode_def senv0_def)

section \<open>Deposits\<close>

text \<open>
  Claim C10. A deposit that \<^verbatim>\<open>processDirectDeposit\<close> writes sets the user's
  \<open>stakedAmount\<close> to the deposited amount itself: it replaces the earlier stake. After
  deposits of 5 and then 3 TON the stake is 3, less than the 8 deposited.
\<close>

theorem deposit_replaces_stake:
  "(map_of (users s) uid = Some u \<and> \<not> fails env (UpdateUser uid)
      \<longrightarrow> map_of (users (snd (processDirectDeposit env uid deposited addr s))) uid
            = Some (u\<lparr>stakedAmount := deposited\<rparr>))
   \<and> map_of (users (snd (processDirectDeposit env0 ''alice'' (Decimal False 3 0) ''wallet''
                 (snd (processDirectDeposit env0 ''alice'' (Decimal False 5 0) ''wallet''
                    ledgerAlice))))) ''alice''
       = Some (newUser ''ALICE1'' (Decimal False 3 0))
   \<and> decValue (Decimal False 3 0) < decValue (Decimal False 5 0) + decValue (Decimal False 3 0)"
  by (auto simp: processDirectDeposit_def updateUserBalance_def map_of_map_entry_at
      env0_def ledgerAlice_def newUser_def decValue_def)

theorem deposit_replaces_stake_witness:
  "map_of (users (snd (processDirectDeposit env0 ''alice'' (Decimal False 3 0) ''wallet''
       ledgerStake5))) ''alice''
     = Some (newUser ''ALICE1'' (Decimal False 3 0))"
proof -
  have h: "map_of (users ledgerStake5) ''alice'' = Some (newUser ''ALICE1'' (Decimal False 5 0))
      \<and> \<not> fails env0 (UpdateUser ''alice'')"
    by (simp add: ledgerStake5_def env0_def)
  from deposit_replaces_stake [where s = ledgerStake5 and uid = "''alice''" and env = env0
      and u = "newUser ''ALICE1'' (Decimal False 5 0)" and deposited = "Decimal False 3 0"
      and addr = "''wallet''"] h
  show ?thesis by (simp add: newUser_def)
qed

section \<open>Withdrawals\<close>





section \<open>Failure of one account\<close>

text \<open>
  Claim C6 as stated fails where it says that the failure becomes a \<^verbatim>\<open>failed\<close> transaction
  and a tally: the \<^verbatim>\<open>catch\<close> of \<^verbatim>\<open>distributeUserRewardWithPremium\<close> only writes to the
  console, and \<^verbatim>\<open>distributeRewards\<close> returns nothing. With the balance write of
  \<^verbatim>\<open>alice\<close> rejected the run ends normally, \<^verbatim>\<open>bob\<close> and \<^verbatim>\<open>carol\<close> are credited, and
  the ledger holds their two \<^verbatim>\<open>completed\<close> reward transactions and no record of the failure.
\<close>

theorem failure_not_recorded_counterexample:
  "distributeRewards (envRejecting (UpdateUser ''alice'')) ledgerThree =
     (Inr (),
      \<lparr>users = [(''alice'', newUser ''ALICE1'' (Decimal False 100 0)),
                (''bob'', (newUser ''BOB1'' (Decimal False 200 0))
                    \<lparr>rewardsBalance := Decimal False 41950685 9,
                     totalEarnings := Decimal False 41950685 9\<rparr>),
                (''carol'', (newUser ''CAROL1'' (Decimal False 300 0))
                    \<lparr>rewardsBalance := Decimal False 62926027 9,
                     totalEarnings := Decimal False 62926027 9\<rparr>)],
       transactions =
         [\<lparr>userId = ''bob'', type = reward, amount = Decimal False 41950685 9,
           status = completed, description = DailyStakingReward False\<rparr>,
          \<lparr>userId = ''carol'', type = reward, amount = Decimal False 62926027 9,
           status = completed, description = DailyStakingReward False\<rparr>],
       pool = \<lparr>PoolData.totalStaked = 600, lastRewardDistribution = Some 1000,
                adminCommission = Decimal False 0 0\<rparr>\<rparr>)"
  by code_simp

text \<open>
  Claim C6, amended. No failure of a per-account call ends the run: when the query and the
  pool update are accepted, \<^verbatim>\<open>distributeRewards\<close> returns normally. The run leaves the
  earlier transactions as they are and appends \<^verbatim>\<open>completed\<close> ones only, so no \<^verbatim>\<open>failed\<close>
  record is written. In a run whose total stake is not zero, every staking account whose own
  writes are accepted, with amounts in range, a unique document id and not the referrer of a
  staking account, has its balance and its earnings set to the snapshot value plus its net
  reward, and its reward transaction is among the records this run appends, whichever calls
  for other accounts are rejected.
\<close>

theorem failure_isolated:
  "(\<not> fails env QueryUsers \<and> \<not> fails env UpdatePool \<longrightarrow> fst (distributeRewards env s) = Inr ())
   \<and> extends (transactions s) (snd (distributeRewards env s))
   \<and> (\<not> fails env QueryUsers \<and> totalStakedOf (getAllUsersWithStakes s) \<noteq> 0
        \<and> distinct (map fst (users s)) \<and> (y, u) \<in> set (getAllUsersWithStakes s)
        \<and> storeAccepts env y \<and> balancesInRange u
        \<and> (\<forall>x \<in> set (getAllUsersWithStakes s). referredBy (snd x) \<noteq> Some y)
      \<longrightarrow> creditedTo (transactions s) env (y, u) (snd (distributeRewards env s)))"
  using distributeRewards_extends [of s env] distributeRewards_creditedTo [of env s y u]
  by (auto simp: distributeRewards_def Let_def)

theorem failure_isolated_witness:
  "fst (distributeRewards (envRejecting (UpdateUser ''alice'')) ledgerThree) = Inr ()
   \<and> extends [] (snd (distributeRewards (envRejecting (UpdateUser ''alice'')) ledgerThree))
   \<and> creditedTo [] (envRejecting (UpdateUser ''alice''))
         (''bob'', newUser ''BOB1'' (Decimal False 200 0))
         (snd (distributeRewards (envRejecting (UpdateUser ''alice'')) ledgerThree))"
proof -
  let ?env = "envRejecting (UpdateUser ''alice'')"
  have h1: "\<not> fails ?env QueryUsers \<and> \<not> fails ?env UpdatePool"
    by (simp add: envRejecting_def)
  have h2: "\<not> fails ?env QueryUsers \<and> totalStakedOf (getAllUsersWithStakes ledgerThree) \<noteq> 0
        \<and> distinct (map fst (users ledgerThree))
        \<and> (''bob'', newUser ''BOB1'' (Decimal False 200 0)) \<in> set (getAllUsersWithStakes ledgerThree)
        \<and> storeAccepts ?env ''bob'' \<and> balancesInRange (newUser ''BOB1'' (Decimal False 200 0))
        \<and> (\<forall>x \<in> set (getAllUsersWithStakes ledgerThree). referredBy (snd x) \<noteq> Some ''bob'')"
    by code_simp
  have t: "transactions ledgerThree = []" by (simp add: ledgerThree_def)
  from failure_isolated [where env = ?env and s = ledgerThree and y = "''bob''"
      and u = "newUser ''BOB1'' (Decimal False 200 0)"]
    h1 h2 t
  show ?thesis by simp
qed

section \<open>Running the distribution twice\<close>

text \<open>
  Claim C2 as stated fails: \<^verbatim>\<open>distributeRewards\<close> has no guard. A second invocation at
  the same time on the ledger the first one left returns normally, credits \<^verbatim>\<open>alice\<close> again
  and appends a second reward transaction.
\<close>

theorem second_run_counterexample:
  "distributeRewards env0 ledgerStake100 =
     (Inr (),
      \<lparr>users = [(''alice'', (newUser ''ALICE1'' (Decimal False 100 0))
                    \<lparr>rewardsBalance := Decimal False 20975342 9,
                     totalEarnings := Decimal False 20975342 9\<rparr>)],
       transactions =
         [\<lparr>userId = ''alice'', type = reward, amount = Decimal False 20975342 9,
           status = completed, description = DailyStakingReward False\<rparr>],
       pool = \<lparr>PoolData.totalStaked = 100, lastRewardDistribution = Some 1000,
                adminCommission = Decimal False 0 0\<rparr>\<rparr>)
   \<and> distributeRewards env0 (snd (distributeRewards env0 ledgerStake100)) =
     (Inr (),
      \<lparr>users = [(''alice'', (newUser ''ALICE1'' (Decimal False 100 0))
                    \<lparr>rewardsBalance := Decimal False 41950684 9,
                     totalEarnings := Decimal False 41950684 9\<rparr>)],
       transactions =
         [\<lparr>userId = ''alice'', type = reward, amount = Decimal False 20975342 9,
           status = completed, description = DailyStakingReward False\<rparr>,
          \<lparr>userId = ''alice'', type = reward, amount = Decimal False 20975342 9,
           status = completed, description = DailyStakingReward False\<rparr>],
       pool = \<lparr>PoolData.totalStaked = 100, lastRewardDistribution = Some 1000,
                adminCommission = Decimal False 0 0\<rparr>\<rparr>)"
  by code_simp

text \<open>
  Claim C2, amended. \<^verbatim>\<open>distributeRewards\<close> writes \<open>lastRewardDistribution\<close> but never
  reads it: its outcome, the user documents and the transactions it leaves are the same
  whatever the marker holds, and no error of the kind \<^verbatim>\<open>AlreadyDistributedError\<close> exists.
  So an invocation on a ledger whose marker already shows the current time, with a total
  stake that is not zero, credits again every staking account whose writes are accepted, with
  amounts in range, a unique document id and not the referrer of a staking account: its
  balance and its earnings become the value before this invocation plus the net reward, and
  its reward transaction is among the records this invocation appends.
\<close>

theorem distribution_ignores_marker:
  "fst (distributeRewards env (s\<lparr>pool := (pool s)\<lparr>lastRewardDistribution := marker\<rparr>\<rparr>))
     = fst (distributeRewards env s)
   \<and> users (snd (distributeRewards env (s\<lparr>pool := (pool s)\<lparr>lastRewardDistribution := marker\<rparr>\<rparr>)))
     = users (snd (distributeRewards env s))
   \<and> transactions (snd (distributeRewards env (s\<lparr>pool := (pool s)\<lparr>lastRewardDistribution := marker\<rparr>\<rparr>)))
     = transactions (snd (distributeRewards env s))
   \<and> (\<not> fails env QueryUsers \<and> totalStakedOf (getAllUsersWithStakes s) \<noteq> 0
        \<and> distinct (map fst (users s)) \<and> (y, u) \<in> set (getAllUsersWithStakes s)
        \<and> storeAccepts env y \<and> balancesInRange u
        \<and> (\<forall>x \<in> set (getAllUsersWithStakes s). referredBy (snd x) \<noteq> Some y)
      \<longrightarrow> creditedTo (transactions s) env (y, u)
            (snd (distributeRewards env
               (s\<lparr>pool := (pool s)\<lparr>lastRewardDistribution := Some (now env)\<rparr>\<rparr>))))"
proof -
  have a: "getAllUsersWithStakes (s\<lparr>pool := p\<rparr>) = getAllUsersWithStakes s" for p
    by (simp add: getAllUsersWithStakes_def)
  have b: "creditedTo (transactions s) env (y, u) (snd (distributeRewards env (s\<lparr>pool := p\<rparr>)))"
    if "\<not> fails env QueryUsers" "totalStakedOf (getAllUsersWithStakes s) \<noteq> 0"
      "distinct (map fst (users s))" "(y, u) \<in> set (getAllUsersWithStakes s)"
      "storeAccepts env y"
      "\<forall>x \<in> set (getAllUsersWithStakes s). referredBy (snd x) \<noteq> Some y" for p
    using distributeRewards_creditedTo [of env "s\<lparr>pool := p\<rparr>" y u] that by (simp add: a)
  show ?thesis
    using b by (simp add: distributeRewards_def a Let_def foldl_distribute_pool)
qed

theorem distribution_ignores_marker_witness:
  "creditedTo (transactions ledgerAfterRun) env0
     (''alice'', (newUser ''ALICE1'' (Decimal False 100 0))
                    \<lparr>rewardsBalance := Decimal False 20975342 9,
                     totalEarnings := Decimal False 20975342 9\<rparr>)
     (snd (distributeRewards env0 ledgerAfterRun))"
proof -
  let ?u = "(newUser ''ALICE1'' (Decimal False 100 0))
                    \<lparr>rewardsBalance := Decimal False 20975342 9,
                     totalEarnings := Decimal False 20975342 9\<rparr>"
  have h: "\<not> fails env0 QueryUsers \<and> totalStakedOf (getAllUsersWithStakes ledgerAfterRun) \<noteq> 0
        \<and> distinct (map fst (users ledgerAfterRun))
        \<and> (''alice'', ?u) \<in> set (getAllUsersWithStakes ledgerAfterRun)
        \<and> storeAccepts env0 ''alice'' \<and> balancesInRange ?u
        \<and> (\<forall>x \<in> set (getAllUsersWithStakes ledgerAfterRun). referredBy (snd x) \<noteq> Some ''alice'')"
    by code_simp
  have p: "ledgerAfterRun\<lparr>pool := (pool ledgerAfterRun)\<lparr>lastRewardDistribution := Some (now env0)\<rparr>\<rparr>
             = ledgerAfterRun"
    by (simp add: ledgerAfterRun_def env0_def)
  from distribution_ignores_marker [where env = env0 and s = ledgerAfterRun
      and marker = "Some (now env0)" and y = "''alice''" and u = ?u] h p
  show ?thesis by simp
qed

section \<open>Expired premium\<close>

text \<open>
  Claim C7: the code misses it. \<^verbatim>\<open>distributeUserRewardWithPremium\<close> has a branch that
  expires a lapsed premium tier, but its test \<^verbatim>\<open>new Date(user.premiumExpiresAt) < now\<close>
  is false for the \<^verbatim>\<open>Timestamp\<close> that the program's own \<^verbatim>\<open>updateUserPremiumStatus\<close> leaves
  in the document. \<^verbatim>\<open>alice\<close> was given a premium tier that expires at time 500; the run at
  time 1000 pays her the standard rate, leaves \<open>isPremium\<close> set and logs no expiry. Had the
  document held the same instant as a number, the branch would have cleared the flag, with
  an update of its own before the reward write.
\<close>

theorem expired_premium_not_cleared:
  "ledgerLapsed =
      \<lparr>users = [(''alice'', (newUser ''ALICE1'' (Decimal False 100 0))
                   \<lparr>isPremium := True, premiumExpiresAt := Some (Timestamp 500),
                    premiumRate := Some (Decimal False 105 1)\<rparr>)],
       transactions =
         [\<lparr>userId = ''alice'', type = premium_payment, amount = Decimal False 2 0,
           status = completed, description = PremiumSubscriptionActivated\<rparr>],
       pool = pool0\<rparr>
   \<and> distributeRewards env0 ledgerLapsed =
     (Inr (),
      \<lparr>users = [(''alice'', (newUser ''ALICE1'' (Decimal False 100 0))
                   \<lparr>rewardsBalance := Decimal False 20975342 9,
                    totalEarnings := Decimal False 20975342 9,
                    isPremium := True, premiumExpiresAt := Some (Timestamp 500),
                    premiumRate := Some (Decimal False 105 1)\<rparr>)],
       transactions =
         [\<lparr>userId = ''alice'', type = premium_payment, amount = Decimal False 2 0,
           status = completed, description = PremiumSubscriptionActivated\<rparr>,
          \<lparr>userId = ''alice'', type = reward, amount = Decimal False 20975342 9,
           status = completed, description = DailyStakingReward False\<rparr>],
       pool = \<lparr>PoolData.totalStaked = 100, lastRewardDistribution = Some 1000,
                adminCommission = Decimal False 0 0\<rparr>\<rparr>)
   \<and> distributeRewards env0 ledgerNumericExpiry =
     (Inr (),
      \<lparr>users = [(''alice'', (newUser ''ALICE1'' (Decimal False 100 0))
                   \<lparr>rewardsBalance := Decimal False 20975342 9,
                    totalEarnings := Decimal False 20975342 9,
                    isPremium := False, premiumExpiresAt := None,
                    premiumRate := Some (Decimal False 87 1)\<rparr>)],
       transactions =
         [\<lparr>userId = ''alice'', type = premium_payment, amount = Decimal False 0 0,
           status = completed, description = PremiumSubscriptionExpired\<rparr>,
          \<lparr>userId = ''alice'', type = reward, amount = Decimal False 20975342 9,
           status = completed, description = DailyStakingReward False\<rparr>],
       pool = \<lparr>PoolData.totalStaked = 100, lastRewardDistribution = Some 1000,
                adminCommission = Decimal False 0 0\<rparr>\<rparr>)"
  by code_simp

section \<open>Conservation\<close>

text \<open>
  Claim C1 as stated fails: the amounts are doubles, and
  \<^verbatim>\<open>netUserReward = userReward - adminCommission\<close> is rounded. For a single staker with
  41 TON at the standard rate, net reward plus commission differs from the gross reward,
  whether the sum is taken exactly or as JavaScript adds.
\<close>

theorem conservation_counterexample:
  "runGross env0 ledgerStake41 = 5633521927304963 / 576460752303423488
   \<and> runCommission env0 ledgerStake41 = 1352045262553191 / 1152921504606846976
   \<and> runNet env0 ledgerStake41 = 309843706001773 / 36028797018963968
   \<and> runNet env0 ledgerStake41 + runCommission env0 ledgerStake41 \<noteq> runGross env0 ledgerStake41
   \<and> jsAdd (runNet env0 ledgerStake41) (runCommission env0 ledgerStake41)
       \<noteq> runGross env0 ledgerStake41"
  by (simp add: runGross_def runCommission_def runNet_def getAllUsersWithStakes_def
      ledgerStake41_def newUser_def greaterThanString0_def userReward_def premiumActive_def
      standard_41)

text \<open>
  Claim C1, amended. For every run over stakes in range, the net rewards plus the
  commissions of the processed accounts equal their gross rewards up to the rounding of each
  subtraction: with the sums taken exactly, the difference is at most \<open>2\<^sup>-\<^sup>5\<^sup>3\<close> times the sum
  of the exact differences \<open>\<bar>gross - commission\<bar>\<close>.
\<close>

theorem conservation_up_to_rounding:
  "stakesInRange s \<longrightarrow>
   \<bar>runNet env s + runCommission env s - runGross env s\<bar>
     \<le> (\<Sum>x\<leftarrow>getAllUsersWithStakes s.
           \<bar>userReward env (snd x) - userCommission (userReward env (snd x))\<bar>) / 2 ^ 53"
proof
  let ?xs = "getAllUsersWithStakes s"
  let ?g = "\<lambda>x. userReward env (snd x)"
  let ?c = "\<lambda>x. userCommission (?g x)"
  let ?n = "\<lambda>x. netUserReward (?g x)"
  have "runNet env s + runCommission env s - runGross env s
          = (\<Sum>x\<leftarrow>?xs. ?n x + ?c x - ?g x)"
    by (simp add: runNet_def runCommission_def runGross_def sum_list_addf sum_list_subtractf)
  also have "\<bar>\<dots>\<bar> \<le> (\<Sum>x\<leftarrow>?xs. \<bar>?g x - ?c x\<bar> / 2 ^ 53)"
  proof (rule sum_list_abs_bound)
    fix x
    have "?n x + ?c x - ?g x = fl (?g x - ?c x) - (?g x - ?c x)"
      by (simp add: netUserReward_def jsSub_def)
    then show "\<bar>?n x + ?c x - ?g x\<bar> \<le> \<bar>?g x - ?c x\<bar> / 2 ^ 53"
      by (simp only: fl_error)
  qed
  also have "\<dots> = (\<Sum>x\<leftarrow>?xs. \<bar>?g x - ?c x\<bar>) / 2 ^ 53"
    by (rule sum_list_divide)
  finally show "\<bar>runNet env s + runCommission env s - runGross env s\<bar>
     \<le> (\<Sum>x\<leftarrow>?xs. \<bar>?g x - ?c x\<bar>) / 2 ^ 53" .
qed

theorem conservation_up_to_rounding_witness:
  "stakesInRange ledgerThree
   \<and> \<bar>runNet env0 ledgerThree + runCommission env0 ledgerThree - runGross env0 ledgerThree\<bar>
     \<le> (\<Sum>x\<leftarrow>getAllUsersWithStakes ledgerThree.
           \<bar>userReward env0 (snd x) - userCommission (userReward env0 (snd x))\<bar>) / 2 ^ 53"
proof -
  have h: "stakesInRange ledgerThree" by code_simp
  from conservation_up_to_rounding [where s = ledgerThree and env = env0] h
  show ?thesis by simp
qed

section \<open>Premium differential\<close>




section \<open>Commission\<close>




section \<open>Referral bonus\<close>

text \<open>
  Claim C5: the code misses it. \<^verbatim>\<open>processReferralBonus\<close> credits 10% of the referee's net
  reward to the referrer, but \<^verbatim>\<open>distributeRewards\<close> works on the user documents it read at
  the start of the run: when the referrer stakes too and comes after the referee, the reward
  write of the referrer sets \<open>rewardsBalance\<close> and \<open>totalEarnings\<close> from that earlier
  snapshot and the bonus is lost. \<^verbatim>\<open>alice\<close>, referred by \<^verbatim>\<open>bob\<close>, receives a net reward of
  exactly 10. After her account is processed \<^verbatim>\<open>bob\<close> holds the bonus of 1 TON; at the end of
  the run he holds only his own reward of 0.104876712 TON, while the ledger keeps the
  transaction that reports the bonus.
\<close>

theorem referral_bonus_overwritten:
  "distributeUserRewardWithPremium env0
      (''alice'', (newUser ''ALICE1'' (Decimal False 4767502612330199 11))
                     \<lparr>referredBy := Some ''bob''\<rparr>)
      (totalStakedOf (getAllUsersWithStakes ledgerReferral)) ledgerReferral =
     \<lparr>users = [(''alice'', (newUser ''ALICE1'' (Decimal False 4767502612330199 11))
                   \<lparr>rewardsBalance := Decimal False 10000000000 9,
                    referredBy := Some ''bob'',
                    totalEarnings := Decimal False 10000000000 9\<rparr>),
               (''bob'', (newUser ''BOB1'' (Decimal False 500 0))
                   \<lparr>rewardsBalance := Decimal False 1000000000 9,
                    totalEarnings := Decimal False 1000000000 9\<rparr>)],
      transactions =
        [\<lparr>userId = ''alice'', type = reward, amount = Decimal False 10000000000 9,
          status = completed, description = DailyStakingReward False\<rparr>,
         \<lparr>userId = ''bob'', type = referral, amount = Decimal False 1000000000 9,
          status = completed,
          description = ReferralBonusFromUser ''alice'' (Decimal False 10000000000 9)\<rparr>],
      pool = pool0\<rparr>
   \<and> distributeRewards env0 ledgerReferral =
     (Inr (),
      \<lparr>users = [(''alice'', (newUser ''ALICE1'' (Decimal False 4767502612330199 11))
                   \<lparr>rewardsBalance := Decimal False 10000000000 9,
                    referredBy := Some ''bob'',
                    totalEarnings := Decimal False 10000000000 9\<rparr>),
                (''bob'', (newUser ''BOB1'' (Decimal False 500 0))
                   \<lparr>rewardsBalance := Decimal False 104876712 9,
                    totalEarnings := Decimal False 104876712 9\<rparr>)],
       transactions =
         [\<lparr>userId = ''alice'', type = reward, amount = Decimal False 10000000000 9,
           status = completed, description = DailyStakingReward False\<rparr>,
          \<lparr>userId = ''bob'', type = referral, amount = Decimal False 1000000000 9,
           status = completed,
           description = ReferralBonusFromUser ''alice'' (Decimal False 10000000000 9)\<rparr>,
          \<lparr>userId = ''bob'', type = reward, amount = Decimal False 104876712 9,
           status = completed, description = DailyStakingReward False\<rparr>],
       pool = \<lparr>PoolData.totalStaked = 6621125173872887 / 137438953472,
                lastRewardDistribution = Some 1000,
                adminCommission = Decimal False 0 0\<rparr>\<rparr>)"
  by code_simp

end
